theory Spec2Isabelle
  imports Complex_Main
begin

section \<open>Boston Housing, XGBoost (Deploy), High Level: the notebook as a program\<close>

text \<open>
  The repository is one notebook, \<^verbatim>\<open>Tutorials/Boston Housing - XGBoost (Deploy) - High Level.ipynb\<close>.
  Its code cells, run from top to bottom, are the program. Every cell is a short sequence
  of calls into pandas, scikit-learn, the operating system, the SageMaker SDK and
  matplotlib; the only control flow of the notebook's own is the guard of cell 10.

  The libraries are not part of the repository. What they compute is taken from the
  environment (\<open>env\<close>, below) wherever the notebook treats it as opaque (the dataset, the
  random permutations, the image URI, the endpoint's answer, number formatting), and is
  written out from the libraries' documented behaviour where the notebook relies on it
  (row selection of \<^verbatim>\<open>train_test_split\<close>, column-wise \<^verbatim>\<open>pd.concat\<close>,
  \<^verbatim>\<open>to_csv\<close>, \<^verbatim>\<open>os.makedirs\<close>, \<^verbatim>\<open>upload_data\<close>).
\<close>

subsection \<open>Data frames\<close>

text \<open>
  A pandas data frame: the column labels and the rows, each row carrying its index label.
  Cells are numbers; a cell of a frame built by an outer join may be missing (NaN), which
  is \<open>None\<close>.
\<close>

record frame =
  columns :: "string list"
  rows :: "(nat \<times> real option list) list"

definition labels :: "frame \<Rightarrow> nat list" where
  "labels f = map fst (rows f)"

definition frame_values :: "frame \<Rightarrow> real option list list" where
  \<comment> \<open>\<^verbatim>\<open>df.values\<close>: the cells without the index.\<close>
  "frame_values f = map snd (rows f)"

definition DataFrame :: "real list list \<Rightarrow> string list \<Rightarrow> frame" where
  \<comment> \<open>\<^verbatim>\<open>pd.DataFrame(data, columns=names)\<close>: the index is \<open>0, 1, ..., n - 1\<close>.\<close>
  "DataFrame dat names =
     \<lparr>columns = names, rows = zip [0..<length dat] (map (map Some) dat)\<rparr>"

definition iloc :: "frame \<Rightarrow> nat list \<Rightarrow> frame" where
  \<comment> \<open>Selection of rows by position; each row keeps its index label.\<close>
  "iloc f ps = f\<lparr>rows := map (\<lambda>p. rows f ! p) ps\<rparr>"

subsection \<open>\<^verbatim>\<open>sklearn.model_selection.train_test_split\<close>\<close>

text \<open>
  With a fractional \<^verbatim>\<open>test_size\<close> and no \<^verbatim>\<open>train_size\<close> the library takes
  \<open>n_test = ceil(test_size * n)\<close> and \<open>n_train = n - n_test\<close>, draws a random permutation
  of the positions \<open>0, ..., n - 1\<close>, gives the first \<open>n_test\<close> of it to the test part and
  the next \<open>n_train\<close> to the train part, and selects those positions from every array
  passed. The permutation drawn is the argument \<open>perm\<close>. The fraction is the decimal
  number written in the notebook.
\<close>

definition n_test_of :: "real \<Rightarrow> nat \<Rightarrow> nat" where
  "n_test_of test_size n = nat \<lceil>test_size * real n\<rceil>"

definition train_test_split ::
  "nat list \<Rightarrow> frame \<Rightarrow> frame \<Rightarrow> real \<Rightarrow> frame \<times> frame \<times> frame \<times> frame" where
  "train_test_split perm X Y test_size =
     (let n = length (rows X);
          n_test = n_test_of test_size n;
          n_train = n - n_test;
          test = take n_test perm;
          train = take n_train (drop n_test perm)
      in (iloc X train, iloc X test, iloc Y train, iloc Y test))"

definition is_permutation :: "nat list \<Rightarrow> nat \<Rightarrow> bool" where
  \<comment> \<open>What the random generator may return for \<open>n\<close> positions.\<close>
  "is_permutation p n = (length p = n \<and> distinct p \<and> (\<forall>i \<in> set p. i < n))"


subsection \<open>\<^verbatim>\<open>pd.concat(..., axis=1)\<close> and \<^verbatim>\<open>to_csv\<close>\<close>

text \<open>
  \<^verbatim>\<open>pd.concat([a, b], axis=1)\<close> puts the columns of \<open>b\<close> to the right of those of \<open>a\<close>,
  joining the rows on their index label (an outer join): a label that one frame lacks
  gets missing cells for that frame's columns. The labels of \<open>a\<close> come first, then those
  only \<open>b\<close> has. Index labels are unique in this notebook.
\<close>

definition cells_at :: "frame \<Rightarrow> nat \<Rightarrow> real option list" where
  "cells_at f i =
     (case map_of (rows f) i of
        Some r \<Rightarrow> r
      | None \<Rightarrow> replicate (length (columns f)) None)"

definition concat_axis1 :: "frame \<Rightarrow> frame \<Rightarrow> frame" where
  "concat_axis1 a b =
     (let ls = labels a @ filter (\<lambda>i. i \<notin> set (labels a)) (labels b)
      in \<lparr>columns = columns a @ columns b,
          rows = map (\<lambda>i. (i, cells_at a i @ cells_at b i)) ls\<rparr>)"

fun join :: "string \<Rightarrow> string list \<Rightarrow> string" where
  "join sep [] = []"
| "join sep [x] = x"
| "join sep (x # y # ys) = x @ sep @ join sep (y # ys)"

definition newline :: string where
  "newline = [CHR 0x0A]"

definition csv_line :: "string list \<Rightarrow> string" where
  "csv_line items = join '','' items @ newline"

definition cell_str :: "(real \<Rightarrow> string) \<Rightarrow> real option \<Rightarrow> string" where
  \<comment> \<open>A missing cell is written as the empty string (\<^verbatim>\<open>na_rep=''\<close>).\<close>
  "cell_str fmt c = (case c of None \<Rightarrow> [] | Some x \<Rightarrow> fmt x)"

fun nat_str :: "nat \<Rightarrow> string" where
  "nat_str n =
     (if n < 10 then [char_of (48 + n)]
      else nat_str (n div 10) @ [char_of (48 + n mod 10)])"

declare nat_str.simps [simp del]

definition to_csv_text :: "(real \<Rightarrow> string) \<Rightarrow> frame \<Rightarrow> bool \<Rightarrow> bool \<Rightarrow> string" where
  \<comment> \<open>The text \<^verbatim>\<open>df.to_csv(path, header=h, index=i)\<close> writes: an optional line of column
      labels, then one line per row, with the index label in front when \<open>index\<close> is set.\<close>
  "to_csv_text fmt f header index =
     concat
       ((if header then [csv_line ((if index then [[]] else []) @ columns f)] else []) @
        map (\<lambda>(i, r). csv_line ((if index then [nat_str i] else []) @ map (cell_str fmt) r))
          (rows f))"

subsection \<open>Paths\<close>

definition path_join :: "string \<Rightarrow> string \<Rightarrow> string" where
  \<comment> \<open>\<^verbatim>\<open>os.path.join(a, b)\<close> on POSIX.\<close>
  "path_join a b =
     (if b \<noteq> [] \<and> hd b = CHR ''/'' then b
      else if a = [] \<or> last a = CHR ''/'' then a @ b
      else a @ ''/'' @ b)"

definition basename :: "string \<Rightarrow> string" where
  \<comment> \<open>The second component of \<^verbatim>\<open>os.path.split\<close>: what follows the last slash.\<close>
  "basename p = rev (takeWhile (\<lambda>c. c \<noteq> CHR ''/'') (rev p))"

definition dirname :: "string \<Rightarrow> string" where
  \<comment> \<open>The first component of \<^verbatim>\<open>os.path.split\<close>: what precedes the last slash, without
      trailing slashes unless it consists of slashes only.\<close>
  "dirname p =
     (let h = rev (dropWhile (\<lambda>c. c \<noteq> CHR ''/'') (rev p))
      in if h \<noteq> [] \<and> \<not> list_all (\<lambda>c. c = CHR ''/'') h
         then rev (dropWhile (\<lambda>c. c = CHR ''/'') (rev h)) else h)"

function ancestors :: "string \<Rightarrow> string list" where
  "ancestors p =
     (let d = dirname p
      in if d = [] \<or> length p \<le> length d then [] else d # ancestors d)"
  by pat_completeness auto
termination
  by (relation "measure length") auto


subsection \<open>The environment and the state\<close>

text \<open>
  What the notebook obtains from outside and treats as opaque: the dataset, the
  permutations the two splits draw, the session's region, bucket and role, the image URI
  the SDK computes, the name the SDK gives the training job (and the endpoint), the
  formatting of a number, the reading of one number at the front of a text (C's
  \<^verbatim>\<open>strtod\<close>, which numpy calls), and the answer of an endpoint to a request.
\<close>

subsubsection \<open>Text on the wire\<close>

text \<open>
  A \<^verbatim>\<open>bytes\<close> value is a list of bytes. A Python \<^verbatim>\<open>str\<close> is represented by its UTF-8
  encoding, which is also what numpy reads when it is handed a \<^verbatim>\<open>str\<close>; so
  \<^verbatim>\<open>b.decode('utf-8')\<close> returns the bytes of \<open>b\<close> when they are well-formed UTF-8 and
  raises otherwise. Well-formed is: no overlong form, no surrogate, nothing above
  U+10FFFF. The body of an endpoint's answer is text, so it has the type of the
  well-formed byte strings.
\<close>

definition is_cont :: "nat \<Rightarrow> bool" where
  "is_cont c = (0x80 \<le> c \<and> c \<le> 0xBF)"

fun utf8_valid :: "nat list \<Rightarrow> bool" where
  "utf8_valid [] = True"
| "utf8_valid (b # bs) =
     (if b < 0x80 then utf8_valid bs
      else if 0xC2 \<le> b \<and> b \<le> 0xDF then
        (case bs of
           c1 # r \<Rightarrow> is_cont c1 \<and> utf8_valid r
         | _ \<Rightarrow> False)
      else if 0xE0 \<le> b \<and> b \<le> 0xEF then
        (case bs of
           c1 # c2 # r \<Rightarrow>
             (if b = 0xE0 then 0xA0 \<le> c1 \<and> c1 \<le> 0xBF
              else if b = 0xED then 0x80 \<le> c1 \<and> c1 \<le> 0x9F
              else is_cont c1) \<and>
             is_cont c2 \<and> utf8_valid r
         | _ \<Rightarrow> False)
      else if 0xF0 \<le> b \<and> b \<le> 0xF4 then
        (case bs of
           c1 # c2 # c3 # r \<Rightarrow>
             (if b = 0xF0 then 0x90 \<le> c1 \<and> c1 \<le> 0xBF
              else if b = 0xF4 then 0x80 \<le> c1 \<and> c1 \<le> 0x8F
              else is_cont c1) \<and>
             is_cont c2 \<and> is_cont c3 \<and> utf8_valid r
         | _ \<Rightarrow> False)
      else False)"

typedef utf8_text = "{bs :: string. utf8_valid (map of_char bs)}"
  morphisms utf8_bytes utf8_text
  by (rule exI[of _ "[]"]) simp

subsubsection \<open>Objects of the SDK, and the environment\<close>

record s3_input =
  s3_data :: string
  content_type :: string

record training_job =
  job_channels :: "(string \<times> s3_input) list"
  job_data :: "(string \<times> string) list"

record estimator =
  image :: string
  est_role :: string
  train_instance_count :: nat
  train_instance_type :: string
  output_path :: string
  hyperparameters :: "(string \<times> string) list"
  latest_training_job :: "training_job option"

record hosted_endpoint =
  served :: estimator
  instance_count :: nat
  instance_type :: string

datatype serializer = Csv_serializer

record predictor =
  endpoint :: string
  request_content_type :: "string option"
  request_serializer :: "serializer option"

record env =
  boston_data :: "real list list"
  boston_target :: "real list"
  boston_feature_names :: "string list"
  perm1 :: "nat list"
  perm2 :: "nat list"
  boto_region_name :: string
  bucket :: string
  execution_role :: string
  image_uri :: "string \<Rightarrow> string \<Rightarrow> string \<Rightarrow> string"
  job_name :: string
  float_str :: "real \<Rightarrow> string"
  csv_float_str :: "real \<Rightarrow> string"
  invoke_endpoint :: "hosted_endpoint \<Rightarrow> string option \<Rightarrow> string \<Rightarrow> utf8_text"
  strtod :: "string \<Rightarrow> (real \<times> string) option"

datatype error =
    FileExistsError string
  | FileNotFoundError string
  | NoSuchKey string
  | NotFitted
  | EndpointNotFound string
  | NotSerializable
  | UnicodeDecodeError

datatype call =
    Session
  | Get_execution_role
  | Load_boston
  | Train_test_split real
  | Path_exists string
  | Makedirs string
  | To_csv string string
  | Upload_data string string
  | Get_image_uri string string string
  | Default_bucket
  | Estimator estimator
  | Set_hyperparameters "(string \<times> string) list"
  | S3_input s3_input
  | Fit estimator "(string \<times> s3_input) list"
  | Deploy estimator nat string
  | Predict predictor string
  | Fromstring string string
  | Scatter frame "real list"
  | Xlabel string
  | Ylabel string
  | Title string
  | Delete_endpoint predictor

text \<open>
  The world the calls act on: the local paths that exist (\<^verbatim>\<open>os.path.exists\<close>), the
  contents of the local files, the objects in S3 by URI, and the endpoints in service
  with their names. The state of a run adds the calls made so far, each with the names
  of the endpoints in service right after it.

  A call raises where its arguments or the calls made before it make it raise: creating
  a directory that exists, writing into a directory that does not, uploading or training
  on a file that is not there, deploying an estimator that was not fitted, addressing an
  endpoint that is not in service, decoding bytes that are not UTF-8. Failures of the
  platform itself (network, quota, permissions) are outside the model.

  \<open>paths\<close> does not tell a regular file from a directory. A world stands for a file
  system in which a path that exists is what the notebook takes it for: \<^verbatim>\<open>../data/boston\<close>
  and the paths above it, where they exist, are directories, and the two CSV paths, where
  they exist, are files that can be written again. A file system that has a regular file
  at \<^verbatim>\<open>../data/boston\<close>, where \<^verbatim>\<open>to_csv\<close> raises, is outside the model.
\<close>

record world =
  paths :: "string set"
  files :: "string \<Rightarrow> string option"
  objects :: "string \<Rightarrow> string option"
  endpoints :: "(string \<times> hosted_endpoint) list"

record st = world +
  trace :: "(call \<times> string set) list"

definition in_service :: "'a world_scheme \<Rightarrow> string set" where
  "in_service s = set (map fst (endpoints s))"

definition log :: "call \<Rightarrow> st \<Rightarrow> st" where
  "log c s = s\<lparr>trace := trace s @ [(c, in_service s)]\<rparr>"

definition calls :: "st \<Rightarrow> call list" where
  "calls s = map fst (trace s)"

definition and_then :: "error + 'a \<Rightarrow> ('a \<Rightarrow> error + 'b) \<Rightarrow> error + 'b" where
  \<comment> \<open>Sequencing: an exception ends the run.\<close>
  "and_then m f = (case m of Inl e \<Rightarrow> Inl e | Inr x \<Rightarrow> f x)"

subsection \<open>The library calls the notebook makes\<close>

definition os_path_exists :: "string \<Rightarrow> st \<Rightarrow> bool \<times> st" where
  "os_path_exists p s = (p \<in> paths s, log (Path_exists p) s)"

definition os_makedirs :: "string \<Rightarrow> st \<Rightarrow> error + st" where
  \<comment> \<open>Creates the directory and the missing directories above it; raises when the path
      exists (\<^verbatim>\<open>exist_ok\<close> is not set).\<close>
  "os_makedirs p s =
     (if p \<in> paths s then Inl (FileExistsError p)
      else Inr (log (Makedirs p) (s\<lparr>paths := paths s \<union> set (ancestors p) \<union> {p}\<rparr>)))"

definition to_csv :: "env \<Rightarrow> frame \<Rightarrow> string \<Rightarrow> bool \<Rightarrow> bool \<Rightarrow> st \<Rightarrow> error + st" where
  \<comment> \<open>Opens the file for writing, which raises when its directory does not exist.\<close>
  "to_csv e f path header index s =
     (let d = dirname path
      in if d \<noteq> [] \<and> d \<notin> paths s then Inl (FileNotFoundError path)
         else
           let text = to_csv_text (float_str e) f header index
           in Inr (log (To_csv path text)
                (s\<lparr>paths := insert path (paths s), files := (files s)(path \<mapsto> text)\<rparr>)))"

definition upload_data :: "env \<Rightarrow> string \<Rightarrow> string \<Rightarrow> st \<Rightarrow> error + (string \<times> st)" where
  \<comment> \<open>\<^verbatim>\<open>session.upload_data(path, key_prefix=k)\<close>: the file goes to the session's default
      bucket under the key \<open>k/<file name>\<close>; the S3 URI of the object is returned.\<close>
  "upload_data e path key_prefix s =
     (case files s path of
        None \<Rightarrow> Inl (FileNotFoundError path)
      | Some text \<Rightarrow>
          let uri = ''s3://'' @ bucket e @ ''/'' @ key_prefix @ ''/'' @ basename path
          in Inr (uri, log (Upload_data path key_prefix) (s\<lparr>objects := (objects s)(uri \<mapsto> text)\<rparr>)))"

definition get_image_uri :: "env \<Rightarrow> string \<Rightarrow> string \<Rightarrow> string \<Rightarrow> st \<Rightarrow> string \<times> st" where
  "get_image_uri e region algorithm version s =
     (image_uri e region algorithm version, log (Get_image_uri region algorithm version) s)"

definition new_Estimator ::
  "string \<Rightarrow> string \<Rightarrow> nat \<Rightarrow> string \<Rightarrow> string \<Rightarrow> st \<Rightarrow> estimator \<times> st" where
  "new_Estimator img rl n itype out s =
     (let est = \<lparr>image = img, est_role = rl, train_instance_count = n,
                 train_instance_type = itype, output_path = out, hyperparameters = [],
                 latest_training_job = None\<rparr>
      in (est, log (Estimator est) s))"

definition set_hyperparameters ::
  "estimator \<Rightarrow> (string \<times> string) list \<Rightarrow> st \<Rightarrow> estimator \<times> st" where
  "set_hyperparameters est kv s =
     (est\<lparr>hyperparameters := hyperparameters est @ kv\<rparr>, log (Set_hyperparameters kv) s)"

definition new_s3_input :: "string \<Rightarrow> string \<Rightarrow> st \<Rightarrow> s3_input \<times> st" where
  "new_s3_input loc ctype s =
     (let i = \<lparr>s3_data = loc, content_type = ctype\<rparr> in (i, log (S3_input i) s))"

fun read_channels ::
  "(string \<Rightarrow> string option) \<Rightarrow> (string \<times> s3_input) list \<Rightarrow> error + (string \<times> string) list" where
  "read_channels objs [] = Inr []"
| "read_channels objs ((name, i) # cs) =
     (case objs (s3_data i) of
        None \<Rightarrow> Inl (NoSuchKey (s3_data i))
      | Some text \<Rightarrow> and_then (read_channels objs cs) (\<lambda>ds. Inr ((name, text) # ds)))"

definition fit :: "estimator \<Rightarrow> (string \<times> s3_input) list \<Rightarrow> st \<Rightarrow> error + (estimator \<times> st)" where
  \<comment> \<open>Launches the training job on the given channels and waits for it; the job reads the
      object at each channel's location. The estimator remembers the job.\<close>
  "fit est inputs s =
     and_then (read_channels (objects s) inputs) (\<lambda>ds.
       Inr (est\<lparr>latest_training_job := Some \<lparr>job_channels = inputs, job_data = ds\<rparr>\<rparr>,
            log (Fit est inputs) s))"

definition deploy :: "env \<Rightarrow> estimator \<Rightarrow> nat \<Rightarrow> string \<Rightarrow> st \<Rightarrow> error + (predictor \<times> st)" where
  \<comment> \<open>Creates an endpoint serving the model of the estimator's training job, named after
      the job, and returns a predictor bound to it.\<close>
  "deploy e est n itype s =
     (case latest_training_job est of
        None \<Rightarrow> Inl NotFitted
      | Some _ \<Rightarrow>
          Inr (\<lparr>endpoint = job_name e, request_content_type = None,
                request_serializer = None\<rparr>,
               log (Deploy est n itype)
                 (s\<lparr>endpoints :=
                      (job_name e, \<lparr>served = est, instance_count = n, instance_type = itype\<rparr>)
                        # endpoints s\<rparr>)))"

definition csv_cell :: "env \<Rightarrow> real option \<Rightarrow> string" where
  "csv_cell e c = (case c of None \<Rightarrow> ''nan'' | Some x \<Rightarrow> csv_float_str e x)"

definition csv_serializer :: "env \<Rightarrow> real option list list \<Rightarrow> string" where
  \<comment> \<open>The SDK's CSV serializer on a two-dimensional array: the rows, comma-separated,
      joined by newlines.\<close>
  "csv_serializer e dat = join newline (map (\<lambda>r. join '','' (map (csv_cell e) r)) dat)"

definition predict :: "env \<Rightarrow> predictor \<Rightarrow> real option list list \<Rightarrow> st \<Rightarrow> error + (string \<times> st)" where
  \<comment> \<open>One request to the predictor's endpoint: the body is the serialized data, the
      content type is the predictor's; the response body is returned as bytes.\<close>
  "predict e p dat s =
     (case request_serializer p of
        None \<Rightarrow> Inl NotSerializable
      | Some Csv_serializer \<Rightarrow>
          (case map_of (endpoints s) (endpoint p) of
             None \<Rightarrow> Inl (EndpointNotFound (endpoint p))
           | Some h \<Rightarrow>
               let body = csv_serializer e dat
               in Inr (utf8_bytes (invoke_endpoint e h (request_content_type p) body),
                       log (Predict p body) s)))"

definition bytes_decode_utf8 :: "string \<Rightarrow> error + string" where
  \<comment> \<open>\<^verbatim>\<open>b.decode('utf-8')\<close>\<close>
  "bytes_decode_utf8 b =
     (if utf8_valid (map of_char b) then Inr b else Inl UnicodeDecodeError)"

definition isspace :: "char \<Rightarrow> bool" where
  "isspace c = (c \<in> set [CHR '' '', CHR 0x09, CHR 0x0A, CHR 0x0B, CHR 0x0C, CHR 0x0D])"

text \<open>
  \<^verbatim>\<open>np.fromstring(text, sep=c)\<close> in text mode reads a number at the front of the text
  (\<open>rd\<close>, which skips leading white space as \<^verbatim>\<open>strtod\<close> does and fails when it can
  consume nothing), then skips white space, the separator and white space, and goes on;
  it stops, keeping what it has read, at the end of the text, where no separator
  follows a number, and where no number follows a separator.
\<close>

function from_text ::
  "(string \<Rightarrow> (real \<times> string) option) \<Rightarrow> char \<Rightarrow> string \<Rightarrow> real list" where
  "from_text rd c t =
     (case rd t of
        None \<Rightarrow> []
      | Some (x, rest) \<Rightarrow>
          if length t \<le> length rest then []
          else x # (case dropWhile isspace rest of
                      [] \<Rightarrow> []
                    | d # after \<Rightarrow>
                        if d = c then from_text rd c (dropWhile isspace after) else []))"
  by pat_completeness auto
termination
proof (relation "measure (\<lambda>(rd, c, t). length t)", goal_cases)
  case 1
  show ?case by simp
next
  case (2 rd c t p x rest d after)
  have "length (dropWhile isspace after) \<le> length after" by (rule length_dropWhile_le)
  moreover have "length (d # after) \<le> length rest"
    using length_dropWhile_le[of isspace rest] 2 by simp
  ultimately show ?case using 2 by simp
qed

declare from_text.simps [simp del]

definition np_fromstring :: "env \<Rightarrow> string \<Rightarrow> char \<Rightarrow> st \<Rightarrow> real list \<times> st" where
  "np_fromstring e text c s = (from_text (strtod e) c text, log (Fromstring text [c]) s)"

definition delete_endpoint :: "predictor \<Rightarrow> st \<Rightarrow> error + st" where
  "delete_endpoint p s =
     (case map_of (endpoints s) (endpoint p) of
        None \<Rightarrow> Inl (EndpointNotFound (endpoint p))
      | Some _ \<Rightarrow>
          Inr (log (Delete_endpoint p)
                (s\<lparr>endpoints := filter (\<lambda>(name, h). name \<noteq> endpoint p) (endpoints s)\<rparr>)))"


subsection \<open>The notebook's cells\<close>

text \<open>
  One definition per code cell, named after what the cell does, with the cell's execution
  number. The Python variables a cell binds are its results; \<open>run_all\<close> is the notebook
  run from top to bottom and returns the variables bound at the end.
\<close>

record bunch =
  bunch_data :: "real list list"
  bunch_target :: "real list"
  bunch_feature_names :: "string list"

record partitions =
  X_train :: frame
  X_val :: frame
  X_test :: frame
  Y_train :: frame
  Y_val :: frame
  Y_test :: frame

record namespace = partitions +
  val_location :: string
  train_location :: string
  container :: string
  xgb :: estimator
  xgb_predictor :: predictor
  Y_pred :: "real list"

definition data_dir :: string where
  "data_dir = ''../data/boston''"

definition prefix :: string where
  "prefix = ''boston-xgboost-deploy-hl''"

definition cell_session :: "env \<Rightarrow> st \<Rightarrow> string \<times> st" where
  \<comment> \<open>In [2]: \<^verbatim>\<open>session = sagemaker.Session(); role = get_execution_role()\<close>\<close>
  "cell_session e s = (execution_role e, log Get_execution_role (log Session s))"

definition cell_load :: "env \<Rightarrow> st \<Rightarrow> bunch \<times> st" where
  \<comment> \<open>In [3]: \<^verbatim>\<open>boston = load_boston()\<close>\<close>
  "cell_load e s =
     (\<lparr>bunch_data = boston_data e, bunch_target = boston_target e,
       bunch_feature_names = boston_feature_names e\<rparr>, log Load_boston s)"

definition cell_split :: "env \<Rightarrow> bunch \<Rightarrow> st \<Rightarrow> partitions \<times> st" where
  \<comment> \<open>In [4]: the two frames, then \<^verbatim>\<open>train_test_split(..., test_size=0.33)\<close> twice, the
      second time on the train part of the first.\<close>
  "cell_split e boston s =
     (let X_bos_pd = DataFrame (bunch_data boston) (bunch_feature_names boston);
          Y_bos_pd = DataFrame (map (\<lambda>t. [t]) (bunch_target boston)) [''0''];
          (X_train1, X_test1, Y_train1, Y_test1) =
             train_test_split (perm1 e) X_bos_pd Y_bos_pd 0.33;
          s1 = log (Train_test_split 0.33) s;
          (X_train2, X_val2, Y_train2, Y_val2) =
             train_test_split (perm2 e) X_train1 Y_train1 0.33;
          s2 = log (Train_test_split 0.33) s1
      in (\<lparr>X_train = X_train2, X_val = X_val2, X_test = X_test1,
           Y_train = Y_train2, Y_val = Y_val2, Y_test = Y_test1\<rparr>, s2))"

definition cell_data_dir :: "st \<Rightarrow> error + st" where
  \<comment> \<open>In [5]: \<^verbatim>\<open>if not os.path.exists(data_dir): os.makedirs(data_dir)\<close>\<close>
  "cell_data_dir s =
     (let (ex, s1) = os_path_exists data_dir s
      in if \<not> ex then os_makedirs data_dir s1 else Inr s1)"

definition cell_save :: "env \<Rightarrow> partitions \<Rightarrow> st \<Rightarrow> error + st" where
  \<comment> \<open>In [6]: the validation file, then the train file, target column first, written
      with \<^verbatim>\<open>header=False, index=False\<close>.\<close>
  "cell_save e p s =
     and_then
       (to_csv e (concat_axis1 (Y_val p) (X_val p)) (path_join data_dir ''validation.csv'')
          False False s)
       (\<lambda>s1. to_csv e (concat_axis1 (Y_train p) (X_train p)) (path_join data_dir ''train.csv'')
          False False s1)"

definition cell_upload :: "env \<Rightarrow> st \<Rightarrow> error + ((string \<times> string) \<times> st)" where
  \<comment> \<open>In [7]: both files are uploaded under \<open>prefix\<close>; the result is
      \<open>(val_location, train_location)\<close>.\<close>
  "cell_upload e s =
     and_then (upload_data e (path_join data_dir ''validation.csv'') prefix s)
       (\<lambda>(val_loc, s1).
          and_then (upload_data e (path_join data_dir ''train.csv'') prefix s1)
            (\<lambda>(train_loc, s2). Inr ((val_loc, train_loc), s2)))"

definition cell_estimator :: "env \<Rightarrow> string \<Rightarrow> st \<Rightarrow> (string \<times> estimator) \<times> st" where
  \<comment> \<open>In [9]: the container from \<^verbatim>\<open>get_image_uri\<close>, then the estimator; the result is
      \<open>(container, xgb)\<close>.\<close>
  "cell_estimator e role s =
     (let (cont, s1) = get_image_uri e (boto_region_name e) ''xgboost'' ''0.90-1'' s;
          s2 = log Default_bucket s1;
          out = ''s3://'' @ bucket e @ ''/'' @ prefix @ ''/output'';
          (est, s3) = new_Estimator cont role 1 ''ml.m4.xlarge'' out s2
      in ((cont, est), s3))"

definition cell_hyperparameters :: "estimator \<Rightarrow> st \<Rightarrow> estimator \<times> st" where
  \<comment> \<open>In [10]\<close>
  "cell_hyperparameters est s =
     set_hyperparameters est
       [(''max_depth'', ''5''), (''eta'', ''0.2''), (''gamma'', ''4''),
        (''min_child_weight'', ''6''), (''subsample'', ''0.8''),
        (''objective'', ''reg:squarederror''), (''early_stopping_rounds'', ''10''),
        (''num_round'', ''200'')] s"

definition cell_fit :: "estimator \<Rightarrow> string \<Rightarrow> string \<Rightarrow> st \<Rightarrow> error + (estimator \<times> st)" where
  \<comment> \<open>In [11]: the two inputs, then
      \<^verbatim>\<open>xgb.fit({'train': s3_input_train, 'validation': s3_input_validation})\<close>\<close>
  "cell_fit est train_loc val_loc s =
     (let (s3_input_train, s1) = new_s3_input train_loc ''csv'' s;
          (s3_input_validation, s2) = new_s3_input val_loc ''csv'' s1
      in fit est [(''train'', s3_input_train), (''validation'', s3_input_validation)] s2)"

definition cell_deploy :: "env \<Rightarrow> estimator \<Rightarrow> st \<Rightarrow> error + (predictor \<times> st)" where
  \<comment> \<open>In [12]: \<^verbatim>\<open>xgb.deploy(initial_instance_count=1, instance_type='ml.m4.xlarge')\<close>\<close>
  "cell_deploy e est s = deploy e est 1 ''ml.m4.xlarge'' s"

definition cell_predict ::
  "env \<Rightarrow> predictor \<Rightarrow> frame \<Rightarrow> st \<Rightarrow> error + ((predictor \<times> real list) \<times> st)" where
  \<comment> \<open>In [13]: content type and serializer are set, the test features are sent in one
      call, the answer is decoded and parsed; the result is \<open>(xgb_predictor, Y_pred)\<close>.\<close>
  "cell_predict e pr X s =
     (let pr1 = pr\<lparr>request_content_type := Some ''text/csv''\<rparr>;
          pr2 = pr1\<lparr>request_serializer := Some Csv_serializer\<rparr>
      in and_then (predict e pr2 (frame_values X) s)
           (\<lambda>(response, s1).
              and_then (bytes_decode_utf8 response)
                (\<lambda>text.
                   let (pred, s2) = np_fromstring e text (CHR '','') s1
                   in Inr ((pr2, pred), s2))))"

definition cell_plot :: "frame \<Rightarrow> real list \<Rightarrow> st \<Rightarrow> st" where
  \<comment> \<open>In [14]\<close>
  "cell_plot Y pred s =
     log (Title ''Median Price vs Predicted Price'')
       (log (Ylabel ''Predicted Price'')
          (log (Xlabel ''Median Price'') (log (Scatter Y pred) s)))"

definition cell_delete :: "predictor \<Rightarrow> st \<Rightarrow> error + st" where
  \<comment> \<open>In [15]: \<^verbatim>\<open>xgb_predictor.delete_endpoint()\<close>\<close>
  "cell_delete pr s = delete_endpoint pr s"

definition run_all :: "env \<Rightarrow> world \<Rightarrow> error + (namespace \<times> st)" where
  "run_all e w =
     (let s0 = world.extend w \<lparr>trace = []\<rparr>;
          (role, s1) = cell_session e s0;
          (boston, s2) = cell_load e s1;
          (p, s3) = cell_split e boston s2
      in and_then (cell_data_dir s3) (\<lambda>s4.
         and_then (cell_save e p s4) (\<lambda>s5.
         and_then (cell_upload e s5) (\<lambda>((val_loc, train_loc), s6).
         let ((cont, est), s7) = cell_estimator e role s6;
             (est1, s8) = cell_hyperparameters est s7
         in and_then (cell_fit est1 train_loc val_loc s8) (\<lambda>(est2, s9).
            and_then (cell_deploy e est2 s9) (\<lambda>(pr, s10).
            and_then (cell_predict e pr (X_test p) s10) (\<lambda>((pr1, pred), s11).
            let s12 = cell_plot (Y_test p) pred s11
            in and_then (cell_delete pr1 s12) (\<lambda>s13.
               Inr (partitions.extend p
                      \<lparr>val_location = val_loc, train_location = train_loc,
                       container = cont, xgb = est2, xgb_predictor = pr1, Y_pred = pred\<rparr>,
                    s13)))))))))"


subsection \<open>Reading a run\<close>

fun call_name :: "call \<Rightarrow> string" where
  "call_name Session = ''sagemaker.Session''"
| "call_name Get_execution_role = ''get_execution_role''"
| "call_name Load_boston = ''load_boston''"
| "call_name (Train_test_split t) = ''train_test_split''"
| "call_name (Path_exists p) = ''os.path.exists''"
| "call_name (Makedirs p) = ''os.makedirs''"
| "call_name (To_csv p t) = ''to_csv''"
| "call_name (Upload_data p k) = ''upload_data''"
| "call_name (Get_image_uri r a v) = ''get_image_uri''"
| "call_name Default_bucket = ''default_bucket''"
| "call_name (Estimator est) = ''Estimator''"
| "call_name (Set_hyperparameters kv) = ''set_hyperparameters''"
| "call_name (S3_input i) = ''s3_input''"
| "call_name (Fit est i) = ''fit''"
| "call_name (Deploy est n t) = ''deploy''"
| "call_name (Predict p b) = ''predict''"
| "call_name (Fromstring t c) = ''np.fromstring''"
| "call_name (Scatter y p) = ''scatter''"
| "call_name (Xlabel t) = ''xlabel''"
| "call_name (Ylabel t) = ''ylabel''"
| "call_name (Title t) = ''title''"
| "call_name (Delete_endpoint p) = ''delete_endpoint''"

definition sdk_names :: "string list" where
  \<comment> \<open>The calls that go to the SageMaker SDK.\<close>
  "sdk_names =
     [''sagemaker.Session'', ''get_execution_role'', ''upload_data'', ''get_image_uri'',
      ''default_bucket'', ''Estimator'', ''set_hyperparameters'', ''s3_input'', ''fit'',
      ''deploy'', ''predict'', ''delete_endpoint'']"

definition is_sdk_call :: "call \<Rightarrow> bool" where
  "is_sdk_call c = (call_name c \<in> set sdk_names)"


text \<open>
  Names for values that occur in a run: the two local files, the URI an upload returns,
  the dataset as \<^verbatim>\<open>load_boston\<close> returns it, the frames cell In [4] binds (they do not
  depend on the state), and the text of the two files.
\<close>

definition val_path :: string where
  "val_path = path_join data_dir ''validation.csv''"

definition train_path :: string where
  "train_path = path_join data_dir ''train.csv''"

definition s3_uri :: "env \<Rightarrow> string \<Rightarrow> string" where
  "s3_uri e name = ''s3://'' @ bucket e @ ''/'' @ prefix @ ''/'' @ name"

definition empty_world :: world where
  "empty_world = \<lparr>paths = {}, files = (\<lambda>p. None), objects = (\<lambda>u. None), endpoints = []\<rparr>"

definition start :: "world \<Rightarrow> st" where
  "start w = world.extend w \<lparr>trace = []\<rparr>"

definition boston_of :: "env \<Rightarrow> bunch" where
  "boston_of e = fst (cell_load e (start empty_world))"

definition split_frames :: "env \<Rightarrow> partitions" where
  "split_frames e = fst (cell_split e (boston_of e) (start empty_world))"

definition val_csv :: "env \<Rightarrow> string" where
  "val_csv e =
     to_csv_text (float_str e)
       (concat_axis1 (Y_val (split_frames e)) (X_val (split_frames e))) False False"

definition train_csv :: "env \<Rightarrow> string" where
  "train_csv e =
     to_csv_text (float_str e)
       (concat_axis1 (Y_train (split_frames e)) (X_train (split_frames e))) False False"


text \<open>
  What is assumed of the dataset and of the random generator: as many targets as feature
  rows, and each split drawing a permutation of the positions of the frame it is given.
\<close>

definition dataset_ok :: "env \<Rightarrow> bool" where
  "dataset_ok e =
     (length (boston_target e) = length (boston_data e) \<and>
      is_permutation (perm1 e) (length (boston_data e)) \<and>
      is_permutation (perm2 e)
        (length (boston_data e) - n_test_of 0.33 (length (boston_data e))))"



definition split_as :: "env \<Rightarrow> partitions \<Rightarrow> nat list \<Rightarrow> nat list \<Rightarrow> nat list \<Rightarrow> bool" where
  \<comment> \<open>The six frames hold the dataset's rows with the index labels \<open>te\<close> (test), \<open>va\<close>
      (validation) and \<open>tr\<close> (train), features and targets under the same labels.\<close>
  "split_as e p te va tr =
     (X_test p = \<lparr>columns = boston_feature_names e,
                  rows = map (\<lambda>i. (i, map Some (boston_data e ! i))) te\<rparr> \<and>
      X_val p = \<lparr>columns = boston_feature_names e,
                 rows = map (\<lambda>i. (i, map Some (boston_data e ! i))) va\<rparr> \<and>
      X_train p = \<lparr>columns = boston_feature_names e,
                   rows = map (\<lambda>i. (i, map Some (boston_data e ! i))) tr\<rparr> \<and>
      Y_test p = \<lparr>columns = [''0''], rows = map (\<lambda>i. (i, [Some (boston_target e ! i)])) te\<rparr> \<and>
      Y_val p = \<lparr>columns = [''0''], rows = map (\<lambda>i. (i, [Some (boston_target e ! i)])) va\<rparr> \<and>
      Y_train p = \<lparr>columns = [''0''], rows = map (\<lambda>i. (i, [Some (boston_target e ! i)])) tr\<rparr>)"

definition paired :: "env \<Rightarrow> frame \<Rightarrow> frame \<Rightarrow> bool" where
  \<comment> \<open>Row by row, the two frames hold the features and the target of one and the same
      row of the dataset, under its index label.\<close>
  "paired e X Y =
     (length (rows Y) = length (rows X) \<and>
      (\<forall>(x, y) \<in> set (zip (rows X) (rows Y)).
         \<exists>i < length (boston_data e).
           x = (i, map Some (boston_data e ! i)) \<and> y = (i, [Some (boston_target e ! i)])))"


definition plain_numbers :: "(real \<Rightarrow> string) \<Rightarrow> bool" where
  \<comment> \<open>A formatted number contains neither a comma nor a line break.\<close>
  "plain_numbers fmt = (\<forall>x. CHR '','' \<notin> set (fmt x) \<and> CHR 0x0A \<notin> set (fmt x))"

text \<open>
  Concrete environments and worlds on which the theorems below are instantiated: four
  rows of the thirteen features, and, for the sizes, 506 rows; a world in which the data
  directory is missing and one in which it exists. Numbers are written with one decimal
  (the demo values are whole), and read as unsigned decimals.
\<close>

definition is_digit :: "char \<Rightarrow> bool" where
  "is_digit c = (48 \<le> (of_char c :: nat) \<and> (of_char c :: nat) \<le> 57)"

definition digits_value :: "string \<Rightarrow> nat" where
  "digits_value ds = foldl (\<lambda>a c. 10 * a + (of_char c - 48)) 0 ds"

definition read_decimal :: "string \<Rightarrow> (real \<times> string) option" where
  "read_decimal t =
     (let u = dropWhile isspace t;
          ds = takeWhile is_digit u;
          r1 = dropWhile is_digit u
      in if ds = [] then None
         else
           (case r1 of
              p # r2 \<Rightarrow>
                if p = CHR ''.'' \<and> takeWhile is_digit r2 \<noteq> [] then
                  Some (real (digits_value ds) +
                          real (digits_value (takeWhile is_digit r2)) /
                            10 ^ length (takeWhile is_digit r2),
                        dropWhile is_digit r2)
                else Some (real (digits_value ds), r1)
            | [] \<Rightarrow> Some (real (digits_value ds), r1)))"

definition write_decimal :: "real \<Rightarrow> string" where
  "write_decimal x = nat_str (nat \<lfloor>x\<rfloor>) @ ''.0''"

definition demo_env :: env where
  "demo_env =
     \<lparr>boston_data = [replicate 13 1, replicate 13 2, replicate 13 3, replicate 13 4],
      boston_target = [10, 20, 30, 40],
      boston_feature_names =
        [''CRIM'', ''ZN'', ''INDUS'', ''CHAS'', ''NOX'', ''RM'', ''AGE'', ''DIS'', ''RAD'',
         ''TAX'', ''PTRATIO'', ''B'', ''LSTAT''],
      perm1 = [2, 0, 3, 1], perm2 = [1, 0],
      boto_region_name = ''us-east-1'', bucket = ''sagemaker-us-east-1-123456789012'',
      execution_role = ''arn:aws:iam::123456789012:role/service-role/notebook'',
      image_uri =
        (\<lambda>r a v. ''683313688378.dkr.ecr.'' @ r @ ''.amazonaws.com/sagemaker-'' @ a @ '':'' @ v
           @ ''-cpu-py3''),
      job_name = ''sagemaker-xgboost-2020-06-24-13-41-36-533'',
      float_str = write_decimal, csv_float_str = write_decimal,
      invoke_endpoint = (\<lambda>h c b. utf8_text ''21.5,30.25''),
      strtod = read_decimal\<rparr>"

definition demo_env_other_test :: env where
  \<comment> \<open>\<open>demo_env\<close> with other values in the two test rows (positions 2 and 0).\<close>
  "demo_env_other_test =
     demo_env\<lparr>boston_data := [replicate 13 7, replicate 13 2, replicate 13 8, replicate 13 4],
              boston_target := [70, 20, 80, 40]\<rparr>"

definition big_env :: env where
  "big_env =
     demo_env\<lparr>boston_data := replicate 506 (replicate 13 0), boston_target := replicate 506 0,
              perm1 := [0..<506], perm2 := [0..<339]\<rparr>"

definition fresh_world :: world where
  \<comment> \<open>The notebook's parent directory exists, \<^verbatim>\<open>../data\<close> does not.\<close>
  "fresh_world = empty_world\<lparr>paths := {''..''}\<rparr>"


section \<open>Properties\<close>

subsection \<open>Auxiliary facts\<close>

lemma path_val: "val_path = ''../data/boston/validation.csv''"
  by (simp add: val_path_def path_join_def data_dir_def)

lemma path_train: "train_path = ''../data/boston/train.csv''"
  by (simp add: train_path_def path_join_def data_dir_def)

lemma paths_distinct [simp]:
  "val_path \<noteq> train_path" "train_path \<noteq> val_path"
  "val_path \<noteq> data_dir" "train_path \<noteq> data_dir"
  by (simp_all add: path_val path_train data_dir_def)

lemma dirname_val [simp]: "dirname val_path = data_dir"
  by (simp add: path_val dirname_def data_dir_def)

lemma dirname_train [simp]: "dirname train_path = data_dir"
  by (simp add: path_train dirname_def data_dir_def)

lemma basename_val [simp]: "basename val_path = ''validation.csv''"
  by (simp add: path_val basename_def)

lemma basename_train [simp]: "basename train_path = ''train.csv''"
  by (simp add: path_train basename_def)

lemma data_dir_ne [simp]: "data_dir \<noteq> []"
  by (simp add: data_dir_def)

lemma s3_uri_distinct [simp]:
  "s3_uri e ''validation.csv'' \<noteq> s3_uri e ''train.csv''"
  "s3_uri e ''train.csv'' \<noteq> s3_uri e ''validation.csv''"
  by (simp_all add: s3_uri_def)

lemma and_then_Inr [simp]: "and_then (Inr x) f = f x"
  by (simp add: and_then_def)

lemma and_then_Inl [simp]: "and_then (Inl x) f = Inl x"
  by (simp add: and_then_def)

lemma names_filter:
  "set (map fst (filter (\<lambda>(name, h). name \<noteq> x) xs)) = set (map fst xs) - {x}"
  by (induction xs) auto

subsection \<open>The effect of each cell\<close>

text \<open>
  Each cell maps a state to a state that is written out field by field; the side
  conditions are what the cell needs from the cells before it.
\<close>

lemma log_eq: "log c s = \<lparr>paths = paths s, files = files s, objects = objects s,
   endpoints = endpoints s, trace = trace s @ [(c, set (map fst (endpoints s)))]\<rparr>"
  by (simp add: log_def in_service_def)

lemma cell_session_eq: "cell_session e s = (execution_role e,
  \<lparr>paths = paths s, files = files s, objects = objects s,
   endpoints = endpoints s, trace = trace s @ [(Session, set (map fst (endpoints s))), (Get_execution_role, set (map fst (endpoints s)))]\<rparr>)"
  by (simp add: cell_session_def log_eq)

lemma cell_load_eq: "cell_load e s = (boston_of e,
  \<lparr>paths = paths s, files = files s, objects = objects s,
   endpoints = endpoints s, trace = trace s @ [(Load_boston, set (map fst (endpoints s)))]\<rparr>)"
  by (simp add: cell_load_def log_eq boston_of_def)

lemma cell_split_fst: "fst (cell_split e b s) = fst (cell_split e b s')"
  by (simp add: cell_split_def Let_def split: prod.splits)

lemma cell_split_eq: "cell_split e (boston_of e) s = (split_frames e,
  \<lparr>paths = paths s, files = files s, objects = objects s,
   endpoints = endpoints s, trace = trace s @
    [(Train_test_split 0.33, set (map fst (endpoints s))),
     (Train_test_split 0.33, set (map fst (endpoints s)))]\<rparr>)"
  by (simp add: cell_split_def split_frames_def Let_def log_eq split: prod.splits)

lemma cell_data_dir_eq: "cell_data_dir s = Inr
  \<lparr>paths = (if data_dir \<in> paths s then paths s else paths s \<union> set (ancestors data_dir) \<union> {data_dir}),
   files = files s, objects = objects s,
   endpoints = endpoints s, trace = trace s @ (Path_exists data_dir, set (map fst (endpoints s))) #
     (if data_dir \<in> paths s then [] else [(Makedirs data_dir, set (map fst (endpoints s)))])\<rparr>"
  by (simp add: cell_data_dir_def os_path_exists_def os_makedirs_def log_eq)

lemma cell_save_eq: "data_dir \<in> paths s \<Longrightarrow> cell_save e (split_frames e) s = Inr
  \<lparr>paths = insert train_path (insert val_path (paths s)),
   files = (files s)(val_path \<mapsto> val_csv e, train_path \<mapsto> train_csv e),
   objects = objects s,
   endpoints = endpoints s, trace = trace s @
     [(To_csv val_path (val_csv e), set (map fst (endpoints s))),
      (To_csv train_path (train_csv e), set (map fst (endpoints s)))]\<rparr>"
  by (simp add: cell_save_def to_csv_def log_eq Let_def val_path_def[symmetric] train_path_def[symmetric]
      val_csv_def train_csv_def)

lemma cell_upload_eq: "files s val_path \<noteq> None \<Longrightarrow> files s train_path \<noteq> None \<Longrightarrow>
  cell_upload e s = Inr ((s3_uri e ''validation.csv'', s3_uri e ''train.csv''),
  \<lparr>paths = paths s, files = files s,
   objects = (objects s)(s3_uri e ''validation.csv'' \<mapsto> the (files s val_path),
      s3_uri e ''train.csv'' \<mapsto> the (files s train_path)),
   endpoints = endpoints s, trace = trace s @
     [(Upload_data val_path prefix, set (map fst (endpoints s))),
      (Upload_data train_path prefix, set (map fst (endpoints s)))]\<rparr>)"
  by (auto simp add: cell_upload_def upload_data_def log_eq Let_def val_path_def[symmetric] train_path_def[symmetric]
      s3_uri_def)


lemma cell_estimator_eq: "cell_estimator e role s =
  ((image_uri e (boto_region_name e) ''xgboost'' ''0.90-1'',
    \<lparr>image = image_uri e (boto_region_name e) ''xgboost'' ''0.90-1'', est_role = role,
      train_instance_count = 1, train_instance_type = ''ml.m4.xlarge'',
      output_path = ''s3://'' @ bucket e @ ''/'' @ prefix @ ''/output'', hyperparameters = [],
      latest_training_job = None\<rparr>),
  \<lparr>paths = paths s, files = files s, objects = objects s,
   endpoints = endpoints s, trace = trace s @
     [(Get_image_uri (boto_region_name e) ''xgboost'' ''0.90-1'', set (map fst (endpoints s))),
      (Default_bucket, set (map fst (endpoints s))),
      (Estimator \<lparr>image = image_uri e (boto_region_name e) ''xgboost'' ''0.90-1'', est_role = role,
      train_instance_count = 1, train_instance_type = ''ml.m4.xlarge'',
      output_path = ''s3://'' @ bucket e @ ''/'' @ prefix @ ''/output'', hyperparameters = [],
      latest_training_job = None\<rparr>, set (map fst (endpoints s)))]\<rparr>)"
  by (simp add: cell_estimator_def get_image_uri_def new_Estimator_def log_eq Let_def)

lemma cell_hyperparameters_eq: "cell_hyperparameters est s =
  (est\<lparr>hyperparameters := hyperparameters est @ [(''max_depth'', ''5''), (''eta'', ''0.2''), (''gamma'', ''4''),
        (''min_child_weight'', ''6''), (''subsample'', ''0.8''),
        (''objective'', ''reg:squarederror''), (''early_stopping_rounds'', ''10''),
        (''num_round'', ''200'')]\<rparr>,
  \<lparr>paths = paths s, files = files s, objects = objects s,
   endpoints = endpoints s, trace = trace s @
     [(Set_hyperparameters [(''max_depth'', ''5''), (''eta'', ''0.2''), (''gamma'', ''4''),
        (''min_child_weight'', ''6''), (''subsample'', ''0.8''),
        (''objective'', ''reg:squarederror''), (''early_stopping_rounds'', ''10''),
        (''num_round'', ''200'')], set (map fst (endpoints s)))]\<rparr>)"
  by (simp add: cell_hyperparameters_def set_hyperparameters_def log_eq)

lemma cell_fit_eq: "objects s tloc \<noteq> None \<Longrightarrow> objects s vloc \<noteq> None \<Longrightarrow>
  cell_fit est tloc vloc s = Inr
  (est\<lparr>latest_training_job := Some \<lparr>job_channels =
       [(''train'', \<lparr>s3_data = tloc, content_type = ''csv''\<rparr>), (''validation'', \<lparr>s3_data = vloc, content_type = ''csv''\<rparr>)],
       job_data = [(''train'', the (objects s tloc)), (''validation'', the (objects s vloc))]\<rparr>\<rparr>,
  \<lparr>paths = paths s, files = files s, objects = objects s,
   endpoints = endpoints s, trace = trace s @
     [(S3_input \<lparr>s3_data = tloc, content_type = ''csv''\<rparr>, set (map fst (endpoints s))),
      (S3_input \<lparr>s3_data = vloc, content_type = ''csv''\<rparr>, set (map fst (endpoints s))),
      (Fit est [(''train'', \<lparr>s3_data = tloc, content_type = ''csv''\<rparr>), (''validation'', \<lparr>s3_data = vloc, content_type = ''csv''\<rparr>)],
         set (map fst (endpoints s)))]\<rparr>)"
  by (auto simp add: cell_fit_def new_s3_input_def fit_def log_eq Let_def)

lemma cell_deploy_eq: "latest_training_job est \<noteq> None \<Longrightarrow>
  cell_deploy e est s = Inr
  (\<lparr>endpoint = job_name e, request_content_type = None, request_serializer = None\<rparr>,
  \<lparr>paths = paths s, files = files s, objects = objects s,
   endpoints = (job_name e, \<lparr>served = est, instance_count = 1, instance_type = ''ml.m4.xlarge''\<rparr>) # endpoints s,
   trace = trace s @
     [(Deploy est 1 ''ml.m4.xlarge'', insert (job_name e) (set (map fst (endpoints s))))]\<rparr>)"
  by (auto simp add: cell_deploy_def deploy_def log_eq Let_def)

lemma utf8_bytes_valid [simp]: "utf8_valid (map of_char (utf8_bytes x))"
  using utf8_bytes[of x] by simp

lemma bytes_decode_text [simp]: "bytes_decode_utf8 (utf8_bytes x) = Inr (utf8_bytes x)"
  by (simp add: bytes_decode_utf8_def)

lemma cell_predict_eq: "map_of (endpoints s) (endpoint pr) \<noteq> None \<Longrightarrow>
  cell_predict e pr X s = Inr
  ((pr\<lparr>request_content_type := Some ''text/csv'', request_serializer := Some Csv_serializer\<rparr>,
    from_text (strtod e) (CHR '','')
      (utf8_bytes (invoke_endpoint e (the (map_of (endpoints s) (endpoint pr)))
         (Some ''text/csv'') (csv_serializer e (frame_values X))))),
  \<lparr>paths = paths s, files = files s, objects = objects s,
   endpoints = endpoints s,
   trace = trace s @
     [(Predict (pr\<lparr>request_content_type := Some ''text/csv'', request_serializer := Some Csv_serializer\<rparr>)
         (csv_serializer e (frame_values X)), set (map fst (endpoints s))),
      (Fromstring (utf8_bytes (invoke_endpoint e (the (map_of (endpoints s) (endpoint pr)))
         (Some ''text/csv'') (csv_serializer e (frame_values X)))) '','',
         set (map fst (endpoints s)))]\<rparr>)"
  by (auto simp add: cell_predict_def predict_def np_fromstring_def log_eq Let_def)

lemma cell_plot_eq: "cell_plot Y pred s =
  \<lparr>paths = paths s, files = files s, objects = objects s,
   endpoints = endpoints s,
   trace = trace s @
     [(Scatter Y pred, set (map fst (endpoints s))),
      (Xlabel ''Median Price'', set (map fst (endpoints s))),
      (Ylabel ''Predicted Price'', set (map fst (endpoints s))),
      (Title ''Median Price vs Predicted Price'', set (map fst (endpoints s)))]\<rparr>"
  by (simp add: cell_plot_def log_eq)

lemma cell_delete_eq: "map_of (endpoints s) (endpoint pr) \<noteq> None \<Longrightarrow>
  cell_delete pr s = Inr
  \<lparr>paths = paths s, files = files s, objects = objects s,
   endpoints = filter (\<lambda>(name, h). name \<noteq> endpoint pr) (endpoints s),
   trace = trace s @
     [(Delete_endpoint pr, set (map fst (endpoints s)) - {endpoint pr})]\<rparr>"
  by (auto simp add: cell_delete_def delete_endpoint_def log_eq names_filter simp del: set_map)


lemma run_all_eq:
  fixes e :: env and w :: world
  defines "E0 \<equiv> set (map fst (endpoints w))"
  defines "img \<equiv> image_uri e (boto_region_name e) ''xgboost'' ''0.90-1''"
  defines "est0 \<equiv> \<lparr>image = img, est_role = execution_role e,
      train_instance_count = 1, train_instance_type = ''ml.m4.xlarge'',
      output_path = ''s3://'' @ bucket e @ ''/'' @ prefix @ ''/output'', hyperparameters = [],
      latest_training_job = None\<rparr>"
  defines "hp \<equiv> [(''max_depth'', ''5''), (''eta'', ''0.2''), (''gamma'', ''4''),
        (''min_child_weight'', ''6''), (''subsample'', ''0.8''),
        (''objective'', ''reg:squarederror''), (''early_stopping_rounds'', ''10''),
        (''num_round'', ''200'')]"
  defines "est1 \<equiv> est0\<lparr>hyperparameters := hp\<rparr>"
  defines "chans \<equiv> [(''train'', \<lparr>s3_data = s3_uri e ''train.csv'', content_type = ''csv''\<rparr>),
       (''validation'', \<lparr>s3_data = s3_uri e ''validation.csv'', content_type = ''csv''\<rparr>)]"
  defines "est2 \<equiv> est1\<lparr>latest_training_job := Some \<lparr>job_channels = chans,
       job_data = [(''train'', train_csv e), (''validation'', val_csv e)]\<rparr>\<rparr>"
  defines "pr \<equiv> \<lparr>endpoint = job_name e, request_content_type = Some ''text/csv'',
       request_serializer = Some Csv_serializer\<rparr>"
  defines "body \<equiv> csv_serializer e (frame_values (X_test (split_frames e)))"
  defines "resp \<equiv> utf8_bytes (invoke_endpoint e
       \<lparr>served = est2, instance_count = 1, instance_type = ''ml.m4.xlarge''\<rparr> (Some ''text/csv'') body)"
  defines "pred \<equiv> from_text (strtod e) (CHR '','') resp"
  shows "run_all e w = Inr
    (partitions.extend (split_frames e)
       \<lparr>val_location = s3_uri e ''validation.csv'', train_location = s3_uri e ''train.csv'',
        container = img, xgb = est2, xgb_predictor = pr, Y_pred = pred\<rparr>,
     \<lparr>paths = insert train_path (insert val_path
         (if data_dir \<in> paths w then paths w else paths w \<union> set (ancestors data_dir) \<union> {data_dir})),
      files = (files w)(val_path \<mapsto> val_csv e, train_path \<mapsto> train_csv e),
      objects = (objects w)(s3_uri e ''validation.csv'' \<mapsto> val_csv e, s3_uri e ''train.csv'' \<mapsto> train_csv e),
      endpoints = filter (\<lambda>(name, h). name \<noteq> job_name e) (endpoints w),
      trace =
        map (\<lambda>c. (c, E0))
          ([Session, Get_execution_role, Load_boston, Train_test_split 0.33, Train_test_split 0.33,
            Path_exists data_dir] @
           (if data_dir \<in> paths w then [] else [Makedirs data_dir]) @
           [To_csv val_path (val_csv e), To_csv train_path (train_csv e),
            Upload_data val_path prefix, Upload_data train_path prefix,
            Get_image_uri (boto_region_name e) ''xgboost'' ''0.90-1'', Default_bucket,
            Estimator est0, Set_hyperparameters hp,
            S3_input \<lparr>s3_data = s3_uri e ''train.csv'', content_type = ''csv''\<rparr>,
            S3_input \<lparr>s3_data = s3_uri e ''validation.csv'', content_type = ''csv''\<rparr>,
            Fit est1 chans]) @
        map (\<lambda>c. (c, insert (job_name e) E0))
          [Deploy est2 1 ''ml.m4.xlarge'', Predict pr body, Fromstring resp '','',
           Scatter (Y_test (split_frames e)) pred, Xlabel ''Median Price'',
           Ylabel ''Predicted Price'', Title ''Median Price vs Predicted Price''] @
        [(Delete_endpoint pr, E0 - {job_name e})]\<rparr>)"
proof (cases "data_dir \<in> paths w")
  case True
  then show ?thesis
    unfolding run_all_def assms
    by (simp add: cell_session_eq cell_load_eq cell_split_eq cell_data_dir_eq cell_save_eq
        cell_upload_eq cell_estimator_eq cell_hyperparameters_eq cell_fit_eq cell_deploy_eq
        cell_predict_eq cell_plot_eq cell_delete_eq world.defs st.defs Let_def)
next
  case False
  then show ?thesis
    unfolding run_all_def assms
    by (simp add: cell_session_eq cell_load_eq cell_split_eq cell_data_dir_eq cell_save_eq
        cell_upload_eq cell_estimator_eq cell_hyperparameters_eq cell_fit_eq cell_deploy_eq
        cell_predict_eq cell_plot_eq cell_delete_eq world.defs st.defs Let_def)
qed



subsection \<open>The partitions\<close>

lemma perm_set: "is_permutation p n \<Longrightarrow> set p = {0..<n}"
proof -
  assume a: "is_permutation p n"
  then have sub: "set p \<subseteq> {0..<n}" by (auto simp: is_permutation_def)
  from a have "card (set p) = n" by (simp add: is_permutation_def distinct_card)
  then have "card (set p) = card {0..<n}" by simp
  with sub show ?thesis by (simp add: card_subset_eq)
qed

lemma n_test_le: "n_test_of 0.33 n \<le> n"
proof -
  have "0.33 * real n \<le> real n" by simp
  then have "\<lceil>0.33 * real n\<rceil> \<le> int n" by (simp add: ceiling_le_iff)
  then show ?thesis by (simp add: n_test_of_def)
qed

lemma map_nth_perm:
  assumes "is_permutation p (length xs)" "distinct xs"
  shows "distinct (map ((!) xs) p)" "set (map ((!) xs) p) = set xs"
proof -
  have sp: "set p = {0..<length xs}" using assms(1) by (rule perm_set)
  have dp: "distinct p" using assms(1) by (simp add: is_permutation_def)
  have "inj_on ((!) xs) {0..<length xs}"
    using assms(2) by (auto simp: inj_on_def nth_eq_iff_index_eq)
  then show "distinct (map ((!) xs) p)" using dp sp by (simp add: distinct_map)
  have "set (map ((!) xs) p) = (!) xs ` {0..<length xs}" using sp by simp
  also have "\<dots> = set xs" using nth_image[of "length xs" xs] by simp
  finally show "set (map ((!) xs) p) = set xs" .
qed

lemma DataFrame_nth: "i < length dat \<Longrightarrow> rows (DataFrame dat names) ! i = (i, map Some (dat ! i))"
  by (simp add: DataFrame_def)

lemma split_frames_char:
  fixes e :: env
  defines "N \<equiv> length (boston_data e)"
  defines "k1 \<equiv> n_test_of 0.33 N"
  defines "k2 \<equiv> n_test_of 0.33 (N - k1)"
  defines "te \<equiv> take k1 (perm1 e)"
  defines "va \<equiv> map ((!) (drop k1 (perm1 e))) (take k2 (perm2 e))"
  defines "tr \<equiv> map ((!) (drop k1 (perm1 e))) (drop k2 (perm2 e))"
  assumes ok: "dataset_ok e"
  shows "distinct (te @ va @ tr)" and "set (te @ va @ tr) = {0..<N}"
    and "length te = k1" and "length va = k2" and "length te + length va + length tr = N"
    and "X_test (split_frames e) =
          \<lparr>columns = boston_feature_names e, rows = map (\<lambda>i. (i, map Some (boston_data e ! i))) te\<rparr>"
    and "X_val (split_frames e) =
          \<lparr>columns = boston_feature_names e, rows = map (\<lambda>i. (i, map Some (boston_data e ! i))) va\<rparr>"
    and "X_train (split_frames e) =
          \<lparr>columns = boston_feature_names e, rows = map (\<lambda>i. (i, map Some (boston_data e ! i))) tr\<rparr>"
    and "Y_test (split_frames e) =
          \<lparr>columns = [''0''], rows = map (\<lambda>i. (i, [Some (boston_target e ! i)])) te\<rparr>"
    and "Y_val (split_frames e) =
          \<lparr>columns = [''0''], rows = map (\<lambda>i. (i, [Some (boston_target e ! i)])) va\<rparr>"
    and "Y_train (split_frames e) =
          \<lparr>columns = [''0''], rows = map (\<lambda>i. (i, [Some (boston_target e ! i)])) tr\<rparr>"
proof -
  define n1 where "n1 = N - k1"
  define tr1 where "tr1 = drop k1 (perm1 e)"
  have k2_def': "k2 = n_test_of 0.33 n1" by (simp add: k2_def n1_def)
  have va_def': "va = map ((!) tr1) (take k2 (perm2 e))" by (simp add: va_def tr1_def)
  have tr_def': "tr = map ((!) tr1) (drop k2 (perm2 e))" by (simp add: tr_def tr1_def)
  have lenT: "length (boston_target e) = N" and p1: "is_permutation (perm1 e) N"
    and p2: "is_permutation (perm2 e) n1"
    using ok by (simp_all add: dataset_ok_def N_def n1_def k1_def)
  have k1: "k1 \<le> N" and k2: "k2 \<le> n1"
    using n_test_le[of N] n_test_le[of n1] by (simp_all add: k1_def k2_def')
  have len1: "length (perm1 e) = N" and len2: "length (perm2 e) = n1"
    using p1 p2 by (simp_all add: is_permutation_def)
  have d1: "distinct (perm1 e)" using p1 by (simp add: is_permutation_def)
  have s1: "set (perm1 e) = {0..<N}" using p1 by (rule perm_set)
  have s2: "set (perm2 e) = {0..<n1}" using p2 by (rule perm_set)
  have len_tr1: "length tr1 = n1" by (simp add: tr1_def len1 n1_def)
  have split1: "perm1 e = te @ tr1" by (simp add: te_def tr1_def)
  have dtr1: "distinct tr1" using d1 by (simp add: tr1_def)
  have vatr: "va @ tr = map ((!) tr1) (perm2 e)"
    by (simp add: va_def' tr_def' flip: map_append)
  have p2': "is_permutation (perm2 e) (length tr1)" using p2 len_tr1 by simp
  have dvt: "distinct (va @ tr)" and svt: "set (va @ tr) = set tr1"
    unfolding vatr using map_nth_perm[OF p2' dtr1] by simp_all
  have dist: "distinct (te @ va @ tr)"
    using d1 dvt svt unfolding split1 by auto
  have sets: "set (te @ va @ tr) = {0..<N}"
    using s1 svt unfolding split1 by auto
  have lte: "length te = k1" by (simp add: te_def len1 k1)
  have lva: "length va = k2" by (simp add: va_def' len2 k2)
  have ltr: "length tr = n1 - k2" by (simp add: tr_def' len2)
  have lsum: "length te + length va + length tr = N"
    using k1 k2 by (simp add: lte lva ltr n1_def)
  have te_lt: "\<And>i. i \<in> set te \<Longrightarrow> i < N" using s1 unfolding split1 by auto
  have tr1_lt: "\<And>i. i \<in> set tr1 \<Longrightarrow> i < N" using s1 unfolding split1 by auto
  have p2_lt: "\<And>p. p \<in> set (perm2 e) \<Longrightarrow> p < n1" using s2 by auto
  have k1': "n_test_of (33 / 100) N = k1" and k2': "n_test_of (33 / 100) n1 = k2"
    by (simp_all add: k1_def k2_def')
  have take_tr1: "take (N - k1) (drop k1 (perm1 e)) = tr1" by (simp add: tr1_def len1)
  have take2: "take (n1 - k2) (drop k2 (perm2 e)) = drop k2 (perm2 e)" by (simp add: len2)
  define fX where "fX = (\<lambda>i. (i, map Some (boston_data e ! i)))"
  define fY where "fY = (\<lambda>i. (i, [Some (boston_target e ! i)]))"
  define X where "X = DataFrame (boston_data e) (boston_feature_names e)"
  define Y where "Y = DataFrame (map (\<lambda>t. [t]) (boston_target e)) [''0'']"
  have Xr: "\<And>i. i < N \<Longrightarrow> rows X ! i = fX i"
    by (simp add: DataFrame_nth N_def X_def fX_def)
  have Yr: "\<And>i. i < N \<Longrightarrow> rows Y ! i = fY i"
    by (simp add: DataFrame_nth lenT Y_def fY_def)
  have lX: "length (rows X) = N" by (simp add: DataFrame_def N_def X_def)
  have cX: "columns X = boston_feature_names e" and cY: "columns Y = [''0'']"
    by (simp_all add: X_def Y_def DataFrame_def)
  have ilocX: "\<And>ps. set ps \<subseteq> {0..<N} \<Longrightarrow>
      iloc X ps = \<lparr>columns = boston_feature_names e, rows = map fX ps\<rparr>"
    using Xr by (auto simp: iloc_def cX subset_iff intro!: frame.equality)
  have ilocY: "\<And>ps. set ps \<subseteq> {0..<N} \<Longrightarrow>
      iloc Y ps = \<lparr>columns = [''0''], rows = map fY ps\<rparr>"
    using Yr by (auto simp: iloc_def cY subset_iff intro!: frame.equality)
  have te_sub: "set te \<subseteq> {0..<N}" and tr1_sub: "set tr1 \<subseteq> {0..<N}"
    using s1 unfolding split1 by auto
  define X1 where "X1 = \<lparr>columns = boston_feature_names e, rows = map fX tr1\<rparr>"
  define Y1 where "Y1 = \<lparr>columns = [''0''], rows = map fY tr1\<rparr>"
  have first: "train_test_split (perm1 e) X Y (33 / 100) =
      (X1, \<lparr>columns = boston_feature_names e, rows = map fX te\<rparr>,
       Y1, \<lparr>columns = [''0''], rows = map fY te\<rparr>)"
    unfolding train_test_split_def
    by (simp add: Let_def lX k1' take_tr1 te_def[symmetric] ilocX[OF te_sub] ilocX[OF tr1_sub]
        ilocY[OF te_sub] ilocY[OF tr1_sub] X1_def Y1_def)
  have lX1: "length (rows X1) = n1" by (simp add: X1_def len_tr1)
  have sel: "\<And>f ps. set ps \<subseteq> set (perm2 e) \<Longrightarrow>
      map ((!) (map f tr1)) ps = map (f \<circ> (!) tr1) ps"
    using p2_lt len_tr1 by (auto simp: subset_iff)
  have sub_take: "set (take k2 (perm2 e)) \<subseteq> set (perm2 e)" by (rule set_take_subset)
  have sub_drop: "set (drop k2 (perm2 e)) \<subseteq> set (perm2 e)" by (rule set_drop_subset)
  have second: "train_test_split (perm2 e) X1 Y1 (33 / 100) =
      (\<lparr>columns = boston_feature_names e, rows = map fX tr\<rparr>,
       \<lparr>columns = boston_feature_names e, rows = map fX va\<rparr>,
       \<lparr>columns = [''0''], rows = map fY tr\<rparr>,
       \<lparr>columns = [''0''], rows = map fY va\<rparr>)"
    unfolding train_test_split_def
    by (simp add: Let_def len_tr1 k2' take2 iloc_def X1_def Y1_def sel[OF sub_take]
        sel[OF sub_drop] va_def' tr_def')
  have sf: "split_frames e =
      \<lparr>X_train = \<lparr>columns = boston_feature_names e, rows = map fX tr\<rparr>,
       X_val = \<lparr>columns = boston_feature_names e, rows = map fX va\<rparr>,
       X_test = \<lparr>columns = boston_feature_names e, rows = map fX te\<rparr>,
       Y_train = \<lparr>columns = [''0''], rows = map fY tr\<rparr>,
       Y_val = \<lparr>columns = [''0''], rows = map fY va\<rparr>,
       Y_test = \<lparr>columns = [''0''], rows = map fY te\<rparr>\<rparr>"
    unfolding split_frames_def cell_split_def boston_of_def cell_load_def
    by (simp add: Let_def X_def[symmetric] Y_def[symmetric] first second)
  have frames:
    "X_test (split_frames e) = \<lparr>columns = boston_feature_names e, rows = map (\<lambda>i. (i, map Some (boston_data e ! i))) te\<rparr>"
    "X_val (split_frames e) = \<lparr>columns = boston_feature_names e, rows = map (\<lambda>i. (i, map Some (boston_data e ! i))) va\<rparr>"
    "X_train (split_frames e) = \<lparr>columns = boston_feature_names e, rows = map (\<lambda>i. (i, map Some (boston_data e ! i))) tr\<rparr>"
    "Y_test (split_frames e) = \<lparr>columns = [''0''], rows = map (\<lambda>i. (i, [Some (boston_target e ! i)])) te\<rparr>"
    "Y_val (split_frames e) = \<lparr>columns = [''0''], rows = map (\<lambda>i. (i, [Some (boston_target e ! i)])) va\<rparr>"
    "Y_train (split_frames e) = \<lparr>columns = [''0''], rows = map (\<lambda>i. (i, [Some (boston_target e ! i)])) tr\<rparr>"
    by (simp_all add: sf fX_def fY_def)
  show "distinct (te @ va @ tr)" by (rule dist)
  show "set (te @ va @ tr) = {0..<N}" by (rule sets)
  show "length te = k1" by (rule lte)
  show "length va = k2" by (rule lva)
  show "length te + length va + length tr = N" by (rule lsum)
  show "X_test (split_frames e) =
          \<lparr>columns = boston_feature_names e, rows = map (\<lambda>i. (i, map Some (boston_data e ! i))) te\<rparr>"
    and "X_val (split_frames e) =
          \<lparr>columns = boston_feature_names e, rows = map (\<lambda>i. (i, map Some (boston_data e ! i))) va\<rparr>"
    and "X_train (split_frames e) =
          \<lparr>columns = boston_feature_names e, rows = map (\<lambda>i. (i, map Some (boston_data e ! i))) tr\<rparr>"
    and "Y_test (split_frames e) =
          \<lparr>columns = [''0''], rows = map (\<lambda>i. (i, [Some (boston_target e ! i)])) te\<rparr>"
    and "Y_val (split_frames e) =
          \<lparr>columns = [''0''], rows = map (\<lambda>i. (i, [Some (boston_target e ! i)])) va\<rparr>"
    and "Y_train (split_frames e) =
          \<lparr>columns = [''0''], rows = map (\<lambda>i. (i, [Some (boston_target e ! i)])) tr\<rparr>"
    by (rule frames)+
qed


lemma split_frames_obtain:
  assumes "dataset_ok e"
  obtains te va tr where
    "te = take (n_test_of 0.33 (length (boston_data e))) (perm1 e)"
    "va = map ((!) (drop (n_test_of 0.33 (length (boston_data e))) (perm1 e)))
            (take (n_test_of 0.33 (length (boston_data e) - n_test_of 0.33 (length (boston_data e))))
               (perm2 e))"
    "tr = map ((!) (drop (n_test_of 0.33 (length (boston_data e))) (perm1 e)))
            (drop (n_test_of 0.33 (length (boston_data e) - n_test_of 0.33 (length (boston_data e))))
               (perm2 e))"
    "distinct (te @ va @ tr)" "set (te @ va @ tr) = {0..<length (boston_data e)}"
    "length te = n_test_of 0.33 (length (boston_data e))"
    "length va = n_test_of 0.33 (length (boston_data e) - n_test_of 0.33 (length (boston_data e)))"
    "length te + length va + length tr = length (boston_data e)"
    "split_as e (split_frames e) te va tr"
proof -
  note c = split_frames_char[OF assms]
  have "split_as e (split_frames e)
     (take (n_test_of 0.33 (length (boston_data e))) (perm1 e))
     (map ((!) (drop (n_test_of 0.33 (length (boston_data e))) (perm1 e)))
            (take (n_test_of 0.33 (length (boston_data e) - n_test_of 0.33 (length (boston_data e))))
               (perm2 e)))
     (map ((!) (drop (n_test_of 0.33 (length (boston_data e))) (perm1 e)))
            (drop (n_test_of 0.33 (length (boston_data e) - n_test_of 0.33 (length (boston_data e))))
               (perm2 e)))"
    unfolding split_as_def by (intro conjI c(6-11))
  then show ?thesis
    by (rule that[OF refl refl refl c(1-5)])
qed

lemma split_asD:
  assumes "split_as e p te va tr"
  shows "rows (X_test p) = map (\<lambda>i. (i, map Some (boston_data e ! i))) te"
    and "rows (X_val p) = map (\<lambda>i. (i, map Some (boston_data e ! i))) va"
    and "rows (X_train p) = map (\<lambda>i. (i, map Some (boston_data e ! i))) tr"
    and "rows (Y_test p) = map (\<lambda>i. (i, [Some (boston_target e ! i)])) te"
    and "rows (Y_val p) = map (\<lambda>i. (i, [Some (boston_target e ! i)])) va"
    and "rows (Y_train p) = map (\<lambda>i. (i, [Some (boston_target e ! i)])) tr"
    and "columns (X_test p) = boston_feature_names e"
    and "columns (X_val p) = boston_feature_names e"
    and "columns (X_train p) = boston_feature_names e"
    and "columns (Y_test p) = [''0'']" and "columns (Y_val p) = [''0'']"
    and "columns (Y_train p) = [''0'']"
  using assms by (simp_all add: split_as_def)

lemma split_as_labels:
  assumes "split_as e p te va tr"
  shows "labels (X_test p) = te" "labels (X_val p) = va" "labels (X_train p) = tr"
    "labels (Y_test p) = te" "labels (Y_val p) = va" "labels (Y_train p) = tr"
  by (simp_all add: labels_def split_asD[OF assms] comp_def)

lemma run_all_frames:
  "\<exists>v s. run_all e w = Inr (v, s) \<and> X_train v = X_train (split_frames e) \<and>
     X_val v = X_val (split_frames e) \<and> X_test v = X_test (split_frames e) \<and>
     Y_train v = Y_train (split_frames e) \<and> Y_val v = Y_val (split_frames e) \<and>
     Y_test v = Y_test (split_frames e)"
  unfolding run_all_eq by (simp add: partitions.defs)

lemma dataset_ok_big: "dataset_ok big_env"
  by (simp add: dataset_ok_def big_env_def demo_env_def is_permutation_def n_test_of_def)

subsection \<open>Sizes of the partitions\<close>

text \<open>
  C10. For a dataset of \<open>N\<close> rows the run ends with \<open>ceil(0.33 * N)\<close> test rows,
  \<open>ceil(0.33 * (N - ceil(0.33 * N)))\<close> validation rows and the remaining rows in the train
  partition, targets as many as features in each; for \<open>N = 506\<close> these are 167, 112 and
  227 rows.
\<close>

theorem C10_partition_sizes:
  assumes "dataset_ok e"
  shows "\<exists>v s. run_all e w = Inr (v, s) \<and>
     length (rows (X_test v)) = nat \<lceil>0.33 * real (length (boston_data e))\<rceil> \<and>
     length (rows (X_val v)) =
       nat \<lceil>0.33 * real (length (boston_data e) - nat \<lceil>0.33 * real (length (boston_data e))\<rceil>)\<rceil> \<and>
     length (rows (X_train v)) =
       length (boston_data e) - length (rows (X_test v)) - length (rows (X_val v)) \<and>
     length (rows (Y_test v)) = length (rows (X_test v)) \<and>
     length (rows (Y_val v)) = length (rows (X_val v)) \<and>
     length (rows (Y_train v)) = length (rows (X_train v)) \<and>
     (length (boston_data e) = 506 \<longrightarrow>
        length (rows (X_test v)) = 167 \<and> length (rows (X_val v)) = 112 \<and>
        length (rows (X_train v)) = 227)"
proof -
  obtain te va tr where
    l: "length te = n_test_of 0.33 (length (boston_data e))"
      "length va = n_test_of 0.33 (length (boston_data e) - n_test_of 0.33 (length (boston_data e)))"
      "length te + length va + length tr = length (boston_data e)"
    and sp: "split_as e (split_frames e) te va tr"
    by (rule split_frames_obtain[OF assms])
  note c = split_asD[OF sp]
  obtain v s where r: "run_all e w = Inr (v, s)"
    and f: "X_train v = X_train (split_frames e)" "X_val v = X_val (split_frames e)"
      "X_test v = X_test (split_frames e)" "Y_train v = Y_train (split_frames e)"
      "Y_val v = Y_val (split_frames e)" "Y_test v = Y_test (split_frames e)"
    using run_all_frames[of e w] by blast
  have te: "length (rows (X_test v)) = nat \<lceil>0.33 * real (length (boston_data e))\<rceil>"
    using l(1) by (simp add: f c n_test_of_def)
  have va: "length (rows (X_val v)) =
       nat \<lceil>0.33 * real (length (boston_data e) - nat \<lceil>0.33 * real (length (boston_data e))\<rceil>)\<rceil>"
    using l(2) by (simp add: f c n_test_of_def)
  have tr: "length (rows (X_train v)) =
       length (boston_data e) - length (rows (X_test v)) - length (rows (X_val v))"
    using l(3) by (simp add: f c)
  have y: "length (rows (Y_test v)) = length (rows (X_test v))"
     "length (rows (Y_val v)) = length (rows (X_val v))"
     "length (rows (Y_train v)) = length (rows (X_train v))"
    by (simp_all add: f c)
  have n: "length (boston_data e) = 506 \<longrightarrow>
        length (rows (X_test v)) = 167 \<and> length (rows (X_val v)) = 112 \<and>
        length (rows (X_train v)) = 227"
    using te va tr by simp
  show ?thesis using r te va tr y n by blast
qed

theorem C10_partition_sizes_witness:
  "dataset_ok big_env \<and> (\<exists>v s. run_all big_env empty_world = Inr (v, s) \<and>
      length (rows (X_test v)) = 167 \<and> length (rows (X_val v)) = 112 \<and>
      length (rows (X_train v)) = 227)"
proof -
  have n: "length (boston_data big_env) = 506" by (simp add: big_env_def)
  from C10_partition_sizes[OF dataset_ok_big, of empty_world] n
  show ?thesis using dataset_ok_big by blast
qed

subsection \<open>Order of the steps\<close>

text \<open>
  C1. Every run completes and makes its calls in one order: the dataset is loaded, split
  twice, the two CSV files are written and uploaded, the estimator is built and fitted,
  the model is deployed, the test rows are sent to the endpoint, the result is plotted,
  and the endpoint is deleted. A deploy precedes the predict call, and
  \<^verbatim>\<open>delete_endpoint\<close> is the last SDK call (and the last call of all).
\<close>

theorem C1_step_order:
  "\<exists>v s. run_all e w = Inr (v, s) \<and>
     map call_name (calls s) =
       [''sagemaker.Session'', ''get_execution_role'', ''load_boston'',
        ''train_test_split'', ''train_test_split'', ''os.path.exists''] @
       (if data_dir \<in> paths w then [] else [''os.makedirs'']) @
       [''to_csv'', ''to_csv'', ''upload_data'', ''upload_data'',
        ''get_image_uri'', ''default_bucket'', ''Estimator'', ''set_hyperparameters'',
        ''s3_input'', ''s3_input'', ''fit'', ''deploy'', ''predict'', ''np.fromstring'',
        ''scatter'', ''xlabel'', ''ylabel'', ''title'', ''delete_endpoint''] \<and>
     ''deploy'' \<in> set (takeWhile (\<lambda>n. n \<noteq> ''predict'') (map call_name (calls s))) \<and>
     last (filter is_sdk_call (calls s)) = Delete_endpoint (xgb_predictor v) \<and>
     last (calls s) = Delete_endpoint (xgb_predictor v)"
  unfolding run_all_eq
  by (simp add: calls_def is_sdk_call_def sdk_names_def namespace.defs partitions.defs)

theorem C1_step_order_witness:
  "\<exists>v s. run_all demo_env empty_world = Inr (v, s) \<and>
     map call_name (calls s) =
       [''sagemaker.Session'', ''get_execution_role'', ''load_boston'',
        ''train_test_split'', ''train_test_split'', ''os.path.exists'', ''os.makedirs'',
        ''to_csv'', ''to_csv'', ''upload_data'', ''upload_data'',
        ''get_image_uri'', ''default_bucket'', ''Estimator'', ''set_hyperparameters'',
        ''s3_input'', ''s3_input'', ''fit'', ''deploy'', ''predict'', ''np.fromstring'',
        ''scatter'', ''xlabel'', ''ylabel'', ''title'', ''delete_endpoint'']"
  using C1_step_order[of demo_env empty_world] by (auto simp add: empty_world_def)

subsection \<open>The guard of the data directory\<close>

text \<open>
  C9. The cell that sets up the local data directory calls \<^verbatim>\<open>os.makedirs\<close> exactly when
  \<^verbatim>\<open>os.path.exists\<close> is false for the directory, never raises, leaves the directory
  existing, changes nothing in the world when the directory was there, and run a second
  time changes nothing and does not call \<^verbatim>\<open>os.makedirs\<close>.
\<close>

theorem C9_data_dir_guarded:
  "\<exists>s'. cell_data_dir s = Inr s' \<and>
     calls s' = calls s @ Path_exists data_dir #
        (if data_dir \<in> paths s then [] else [Makedirs data_dir]) \<and>
     data_dir \<in> paths s' \<and>
     (data_dir \<in> paths s \<longrightarrow> world.truncate s' = world.truncate s) \<and>
     (\<exists>s''. cell_data_dir s' = Inr s'' \<and> world.truncate s'' = world.truncate s' \<and>
        calls s'' = calls s' @ [Path_exists data_dir])"
  unfolding cell_data_dir_eq
  by (simp add: calls_def world.defs st.defs)

theorem C9_data_dir_guarded_witness:
  "\<exists>s'. cell_data_dir (start empty_world) = Inr s' \<and>
     calls s' = [Path_exists data_dir, Makedirs data_dir] \<and> data_dir \<in> paths s' \<and>
     (\<exists>s''. cell_data_dir s' = Inr s'' \<and> world.truncate s'' = world.truncate s' \<and>
        calls s'' = calls s' @ [Path_exists data_dir])"
  using C9_data_dir_guarded[of "start empty_world"]
  by (auto simp add: start_def empty_world_def calls_def world.defs st.defs)




subsection \<open>The split is a partition\<close>

lemma dataset_ok_demo: "dataset_ok demo_env"
  by (simp add: dataset_ok_def demo_env_def is_permutation_def n_test_of_def)

lemma rows_DataFrame:
  "rows (DataFrame dat names) = map (\<lambda>i. (i, map Some (dat ! i))) [0..<length dat]"
  by (rule nth_equalityI) (simp_all add: DataFrame_def)

lemma set_rows_DataFrame:
  "set (rows (DataFrame dat names)) = (\<lambda>i. (i, map Some (dat ! i))) ` {0..<length dat}"
  by (simp add: rows_DataFrame)

lemma paired_maps:
  assumes "set ls \<subseteq> {0..<length (boston_data e)}"
  shows "paired e \<lparr>columns = cx, rows = map (\<lambda>i. (i, map Some (boston_data e ! i))) ls\<rparr>
                  \<lparr>columns = cy, rows = map (\<lambda>i. (i, [Some (boston_target e ! i)])) ls\<rparr>"
  using assms by (auto simp: paired_def zip_map_map zip_same_conv_map subset_iff)

text \<open>
  C4. The split leaves three partitions whose index labels are pairwise disjoint, without
  repetition, and together are the labels \<open>0, ..., N - 1\<close> of the loaded dataset; the rows
  of the three feature frames together are exactly the rows of the loaded feature frame,
  and likewise for the targets; and in each partition the feature frame and the target
  frame hold, row by row, the features and the target of the same row of the dataset.
\<close>

theorem C4_split_partitions:
  assumes "dataset_ok e"
  shows "\<exists>v s. run_all e w = Inr (v, s) \<and>
     distinct (labels (X_train v)) \<and> distinct (labels (X_val v)) \<and>
     distinct (labels (X_test v)) \<and>
     set (labels (X_train v)) \<inter> set (labels (X_val v)) = {} \<and>
     set (labels (X_train v)) \<inter> set (labels (X_test v)) = {} \<and>
     set (labels (X_val v)) \<inter> set (labels (X_test v)) = {} \<and>
     set (labels (X_train v)) \<union> set (labels (X_val v)) \<union> set (labels (X_test v)) =
       {0..<length (boston_data e)} \<and>
     set (rows (X_train v)) \<union> set (rows (X_val v)) \<union> set (rows (X_test v)) =
       set (rows (DataFrame (boston_data e) (boston_feature_names e))) \<and>
     set (rows (Y_train v)) \<union> set (rows (Y_val v)) \<union> set (rows (Y_test v)) =
       set (rows (DataFrame (map (\<lambda>t. [t]) (boston_target e)) [''0''])) \<and>
     paired e (X_train v) (Y_train v) \<and> paired e (X_val v) (Y_val v) \<and>
     paired e (X_test v) (Y_test v)"
proof -
  let ?N = "length (boston_data e)"
  obtain te va tr where
    d: "distinct (te @ va @ tr)" and u: "set (te @ va @ tr) = {0..<?N}"
    and sp: "split_as e (split_frames e) te va tr"
    by (rule split_frames_obtain[OF assms])
  note c = split_asD[OF sp] and lb = split_as_labels[OF sp]
  have lenT: "length (boston_target e) = ?N" using assms by (simp add: dataset_ok_def)
  obtain v s where r: "run_all e w = Inr (v, s)"
    and f: "X_train v = X_train (split_frames e)" "X_val v = X_val (split_frames e)"
      "X_test v = X_test (split_frames e)" "Y_train v = Y_train (split_frames e)"
      "Y_val v = Y_val (split_frames e)" "Y_test v = Y_test (split_frames e)"
    using run_all_frames[of e w] by blast
  have sub: "set te \<subseteq> {0..<?N}" "set va \<subseteq> {0..<?N}" "set tr \<subseteq> {0..<?N}"
    using u by auto
  have un: "set tr \<union> set va \<union> set te = {0..<?N}" using u by auto
  have dis: "distinct tr" "distinct va" "distinct te"
    "set tr \<inter> set va = {}" "set tr \<inter> set te = {}" "set va \<inter> set te = {}"
    using d by auto
  have X: "set (rows (X_train v)) \<union> set (rows (X_val v)) \<union> set (rows (X_test v)) =
       set (rows (DataFrame (boston_data e) (boston_feature_names e)))"
    by (simp add: f c set_rows_DataFrame flip: image_Un un)
  have "set (rows (Y_train v)) \<union> set (rows (Y_val v)) \<union> set (rows (Y_test v)) =
      (\<lambda>i. (i, [Some (boston_target e ! i)])) ` {0..<?N}"
    by (simp add: f c flip: image_Un un)
  also have "\<dots> = set (rows (DataFrame (map (\<lambda>t. [t]) (boston_target e)) [''0'']))"
    by (simp add: set_rows_DataFrame lenT)
  finally have Y: "set (rows (Y_train v)) \<union> set (rows (Y_val v)) \<union> set (rows (Y_test v)) =
       set (rows (DataFrame (map (\<lambda>t. [t]) (boston_target e)) [''0'']))" .
  have p: "paired e (X_train v) (Y_train v)" "paired e (X_val v) (Y_val v)"
     "paired e (X_test v) (Y_test v)"
    using paired_maps[OF sub(3)] paired_maps[OF sub(2)] paired_maps[OF sub(1)] sp
    by (simp_all add: f split_as_def)
  show ?thesis
    using r dis un X Y p by (auto simp add: f lb)
qed

theorem C4_split_partitions_witness:
  "dataset_ok demo_env \<and>
   (\<exists>v s. run_all demo_env empty_world = Inr (v, s) \<and>
     set (labels (X_train v)) \<inter> set (labels (X_val v)) = {} \<and>
     set (labels (X_train v)) \<inter> set (labels (X_test v)) = {} \<and>
     set (labels (X_val v)) \<inter> set (labels (X_test v)) = {} \<and>
     set (labels (X_train v)) \<union> set (labels (X_val v)) \<union> set (labels (X_test v)) = {0..<4} \<and>
     paired demo_env (X_train v) (Y_train v))"
proof -
  have n: "length (boston_data demo_env) = 4" by (simp add: demo_env_def)
  from C4_split_partitions[OF dataset_ok_demo, of empty_world]
  show ?thesis unfolding n using dataset_ok_demo by blast
qed

subsection \<open>The uploaded files\<close>

lemma cells_at_map:
  assumes "i \<in> set ls"
  shows "cells_at \<lparr>columns = c, rows = map (\<lambda>i. (i, g i)) ls\<rparr> i = g i"
  using assms by (simp add: cells_at_def map_of_map_restrict)

lemma concat_axis1_same:
  "concat_axis1 \<lparr>columns = cy, rows = map (\<lambda>i. (i, g i)) ls\<rparr>
                \<lparr>columns = cx, rows = map (\<lambda>i. (i, h i)) ls\<rparr> =
   \<lparr>columns = cy @ cx, rows = map (\<lambda>i. (i, g i @ h i)) ls\<rparr>"
  by (simp add: concat_axis1_def labels_def comp_def cells_at_map)

lemma to_csv_text_plain:
  "to_csv_text fmt \<lparr>columns = c, rows = map (\<lambda>i. (i, r i)) ls\<rparr> False False =
   concat (map (\<lambda>i. csv_line (map (cell_str fmt) (r i))) ls)"
  by (simp add: to_csv_text_def comp_def)

lemma join_commas: "join '','' (f # fs) = f @ concat (map (\<lambda>g. CHR '','' # g) fs)"
  by (induction fs arbitrary: f) simp_all


lemma csv_line_fields:
  "csv_line (f # map fmt xs) = f @ concat (map (\<lambda>x. CHR '','' # fmt x) xs) @ [CHR 0x0A]"
  by (simp add: csv_line_def join_commas newline_def comp_def)

lemma csv_of_split:
  assumes "split_as e (split_frames e) te va tr"
  shows "val_csv e = concat (map (\<lambda>i.
            float_str e (boston_target e ! i) @
            concat (map (\<lambda>x. CHR '','' # float_str e x) (boston_data e ! i)) @ [CHR 0x0A]) va)"
    and "train_csv e = concat (map (\<lambda>i.
            float_str e (boston_target e ! i) @
            concat (map (\<lambda>x. CHR '','' # float_str e x) (boston_data e ! i)) @ [CHR 0x0A]) tr)"
  using assms
  by (simp_all add: val_csv_def train_csv_def split_as_def concat_axis1_same to_csv_text_plain
      cell_str_def comp_def csv_line_fields[unfolded comp_def])

lemma count_in_fields:
  assumes "plain_numbers fmt"
  shows "filter (\<lambda>c. c = CHR '','') (concat (map (\<lambda>x. CHR '','' # fmt x) xs)) =
           replicate (length xs) (CHR '','')"
    and "filter (\<lambda>c. c = CHR 0x0A) (concat (map (\<lambda>x. CHR '','' # fmt x) xs)) = []"
    and "filter (\<lambda>c. c = CHR '','') (fmt y) = []"
    and "filter (\<lambda>c. c = CHR 0x0A) (fmt y) = []"
proof -
  have p: "\<And>x. CHR '','' \<notin> set (fmt x)" "\<And>x. CHR 0x0A \<notin> set (fmt x)"
    using assms by (simp_all add: plain_numbers_def)
  show c: "filter (\<lambda>c. c = CHR '','') (fmt y) = []" for y
    using p(1)[of y] by (auto simp add: filter_empty_conv)
  show n: "filter (\<lambda>c. c = CHR 0x0A) (fmt y) = []" for y
    using p(2)[of y] by (auto simp add: filter_empty_conv)
  show "filter (\<lambda>c. c = CHR '','') (concat (map (\<lambda>x. CHR '','' # fmt x) xs)) =
           replicate (length xs) (CHR '','')"
    by (induction xs) (simp_all add: c)
  show "filter (\<lambda>c. c = CHR 0x0A) (concat (map (\<lambda>x. CHR '','' # fmt x) xs)) = []"
    by (induction xs) (simp_all add: n)
qed

lemma count_lines:
  assumes "plain_numbers fmt"
  shows "length (filter (\<lambda>c. c = CHR 0x0A)
           (concat (map (\<lambda>i. fmt (t i) @ concat (map (\<lambda>x. CHR '','' # fmt x) (d i)) @ [CHR 0x0A]) ls)))
         = length ls"
  by (induction ls) (simp_all add: count_in_fields[OF assms])

lemma demo_13: "\<forall>r \<in> set (boston_data demo_env). length r = 13"
  by (simp add: demo_env_def)

lemma nat_str_digits: "set (nat_str n) \<subseteq> {c. is_digit c}"
proof (induction n rule: nat_str.induct)
  case (1 n)
  have d: "is_digit (char_of (48 + k))" if "k < 10" for k :: nat
    using that by (simp add: is_digit_def)
  have m: "n mod 10 < 10" by simp
  show ?case
  proof (cases "n < 10")
    case True
    then show ?thesis by (subst nat_str.simps) (simp add: d)
  next
    case False
    with 1 have "set (nat_str (n div 10)) \<subseteq> {c. is_digit c}" by simp
    with False show ?thesis by (subst nat_str.simps) (simp add: d[OF m])
  qed
qed

lemma plain_write_decimal: "plain_numbers write_decimal"
proof -
  have "\<not> is_digit (CHR '','')" "\<not> is_digit (CHR 0x0A)" by (simp_all add: is_digit_def)
  then have "CHR '','' \<notin> set (nat_str n)" "CHR 0x0A \<notin> set (nat_str n)" for n
    using nat_str_digits[of n] by auto
  then show ?thesis by (simp add: plain_numbers_def write_decimal_def)
qed

text \<open>
  C5. Exactly two uploads are made, of \<^verbatim>\<open>validation.csv\<close> and of \<^verbatim>\<open>train.csv\<close> in this
  order, both with the key prefix \<^verbatim>\<open>boston-xgboost-deploy-hl\<close>; they add two objects to
  the bucket and change no other. Each object is the text of the local file, and that
  text is, for the rows of the partition in order, one line per row and nothing else (no
  header line, no index field): the row's target, then for each of its features a comma
  and the feature, then a line break. With 13 features per row of the dataset and
  numbers written without a comma or a line break, the text has as many line breaks as
  the partition has rows and every line has 13 commas: the target and 13 feature values.
\<close>

theorem C5_uploaded_csv:
  assumes "dataset_ok e" and "\<forall>r \<in> set (boston_data e). length r = 13"
    and "plain_numbers (float_str e)"
  shows "\<exists>v s. run_all e w = Inr (v, s) \<and>
     (let N = length (boston_data e);
          k1 = n_test_of 0.33 N;
          k2 = n_test_of 0.33 (N - k1);
          line = (\<lambda>i. float_str e (boston_target e ! i) @
                       concat (map (\<lambda>x. CHR '','' # float_str e x) (boston_data e ! i)) @
                       [CHR 0x0A]);
          val_text = concat (map line (labels (X_val v)));
          train_text = concat (map line (labels (X_train v)))
      in filter (\<lambda>c. call_name c = ''upload_data'') (calls s) =
           [Upload_data (path_join data_dir ''validation.csv'') ''boston-xgboost-deploy-hl'',
            Upload_data (path_join data_dir ''train.csv'') ''boston-xgboost-deploy-hl''] \<and>
         val_location v = ''s3://'' @ bucket e @ ''/boston-xgboost-deploy-hl/validation.csv'' \<and>
         train_location v = ''s3://'' @ bucket e @ ''/boston-xgboost-deploy-hl/train.csv'' \<and>
         labels (X_val v) = map ((!) (drop k1 (perm1 e))) (take k2 (perm2 e)) \<and>
         labels (X_train v) = map ((!) (drop k1 (perm1 e))) (drop k2 (perm2 e)) \<and>
         objects s = (objects w)(val_location v \<mapsto> val_text, train_location v \<mapsto> train_text) \<and>
         files s (path_join data_dir ''validation.csv'') = Some val_text \<and>
         files s (path_join data_dir ''train.csv'') = Some train_text \<and>
         length (filter (\<lambda>c. c = CHR 0x0A) val_text) = length (labels (X_val v)) \<and>
         length (filter (\<lambda>c. c = CHR 0x0A) train_text) = length (labels (X_train v)) \<and>
         (\<forall>i \<in> set (labels (X_val v)) \<union> set (labels (X_train v)).
            length (boston_data e ! i) = 13 \<and>
            length (filter (\<lambda>c. c = CHR '','') (line i)) = 13))"
proof -
  let ?N = "length (boston_data e)"
  obtain te va tr where
    va: "va = map ((!) (drop (n_test_of 0.33 ?N) (perm1 e)))
            (take (n_test_of 0.33 (?N - n_test_of 0.33 ?N)) (perm2 e))"
    and tr: "tr = map ((!) (drop (n_test_of 0.33 ?N) (perm1 e)))
            (drop (n_test_of 0.33 (?N - n_test_of 0.33 ?N)) (perm2 e))"
    and u: "set (te @ va @ tr) = {0..<?N}"
    and sp: "split_as e (split_frames e) te va tr"
    using split_frames_obtain[OF assms(1)] by metis
  note lb = split_as_labels[OF sp] and csv = csv_of_split[OF sp]
  note cnt = count_in_fields[OF assms(3)] and cl = count_lines[OF assms(3)]
  have va': "map ((!) (drop (n_test_of (33 / 100) ?N) (perm1 e)))
            (take (n_test_of (33 / 100) (?N - n_test_of (33 / 100) ?N)) (perm2 e)) = va"
    and tr': "map ((!) (drop (n_test_of (33 / 100) ?N) (perm1 e)))
            (drop (n_test_of (33 / 100) (?N - n_test_of (33 / 100) ?N)) (perm2 e)) = tr"
    by (simp_all add: va tr)
  have len: "length (boston_data e ! i) = 13" if "i \<in> set va \<union> set tr" for i
  proof -
    from that u have "i < ?N" by auto
    then have "boston_data e ! i \<in> set (boston_data e)" by (rule nth_mem)
    with assms(2) show ?thesis by blast
  qed
  show ?thesis
    unfolding run_all_eq
    apply (rule exI, rule exI, rule conjI, rule refl)
    using len
    apply (simp add: calls_def partitions.defs lb csv s3_uri_def prefix_def Let_def va' tr' cnt cl
        val_path_def[symmetric] train_path_def[symmetric])
    done
qed


theorem C5_uploaded_csv_witness:
  "dataset_ok demo_env \<and> list_all (\<lambda>r. length r = 13) (boston_data demo_env) \<and>
   plain_numbers (float_str demo_env) \<and>
   (\<exists>v s. run_all demo_env fresh_world = Inr (v, s) \<and>
     filter (\<lambda>c. call_name c = ''upload_data'') (calls s) =
       [Upload_data ''../data/boston/validation.csv'' ''boston-xgboost-deploy-hl'',
        Upload_data ''../data/boston/train.csv'' ''boston-xgboost-deploy-hl''] \<and>
     val_location v =
       ''s3://sagemaker-us-east-1-123456789012/boston-xgboost-deploy-hl/validation.csv'' \<and>
     train_location v =
       ''s3://sagemaker-us-east-1-123456789012/boston-xgboost-deploy-hl/train.csv'' \<and>
     labels (X_val v) = [1] \<and> labels (X_train v) = [3] \<and>
     objects s (val_location v) =
       Some ''20.0,2.0,2.0,2.0,2.0,2.0,2.0,2.0,2.0,2.0,2.0,2.0,2.0,2.0\<newline>'' \<and>
     objects s (train_location v) =
       Some ''40.0,4.0,4.0,4.0,4.0,4.0,4.0,4.0,4.0,4.0,4.0,4.0,4.0,4.0\<newline>'' \<and>
     files s ''../data/boston/validation.csv'' = objects s (val_location v) \<and>
     files s ''../data/boston/train.csv'' = objects s (train_location v))"
proof -
  have pn: "plain_numbers (float_str demo_env)"
    by (simp add: demo_env_def plain_write_decimal)
  have ev: "bucket demo_env = ''sagemaker-us-east-1-123456789012''"
    "perm1 demo_env = [2, 0, 3, 1]" "perm2 demo_env = [1, 0]"
    "length (boston_data demo_env) = 4"
    "boston_target demo_env ! Suc 0 = 20" "boston_target demo_env ! 3 = 40"
    "float_str demo_env = write_decimal"
    by (simp_all add: demo_env_def)
  have rw: "boston_data demo_env ! Suc 0 = [2, 2, 2, 2, 2, 2, 2, 2, 2, 2, 2, 2, 2]"
    "boston_data demo_env ! 3 = [4, 4, 4, 4, 4, 4, 4, 4, 4, 4, 4, 4, 4]"
    by (simp_all add: demo_env_def eval_nat_numeral)
  have k: "n_test_of (33 / 100) 4 = 2" "n_test_of (33 / 100) 2 = 1"
    by (simp_all add: n_test_of_def)
  have wd: "write_decimal 20 = ''20.0''" "write_decimal 40 = ''40.0''"
    "write_decimal 2 = ''2.0''" "write_decimal 4 = ''4.0''"
    by code_simp+
  have pj: "path_join data_dir ''validation.csv'' = ''../data/boston/validation.csv''"
    "path_join data_dir ''train.csv'' = ''../data/boston/train.csv''"
    by (simp_all add: path_join_def data_dir_def)
  from C5_uploaded_csv[OF dataset_ok_demo demo_13 pn, of fresh_world]
  obtain v s where r: "run_all demo_env fresh_world = Inr (v, s)"
    and u: "filter (\<lambda>c. call_name c = ''upload_data'') (calls s) =
           [Upload_data (path_join data_dir ''validation.csv'') ''boston-xgboost-deploy-hl'',
            Upload_data (path_join data_dir ''train.csv'') ''boston-xgboost-deploy-hl'']"
    and loc: "val_location v =
        ''s3://'' @ bucket demo_env @ ''/boston-xgboost-deploy-hl/validation.csv''"
      "train_location v = ''s3://'' @ bucket demo_env @ ''/boston-xgboost-deploy-hl/train.csv''"
    and lv: "labels (X_val v) = [1]" and lt: "labels (X_train v) = [3]"
    and ob: "objects s = (objects fresh_world)
       (val_location v \<mapsto>
          concat (map (\<lambda>i. float_str demo_env (boston_target demo_env ! i) @
                       concat (map (\<lambda>x. CHR '','' # float_str demo_env x) (boston_data demo_env ! i)) @
                       [CHR 0x0A]) (labels (X_val v))),
        train_location v \<mapsto>
          concat (map (\<lambda>i. float_str demo_env (boston_target demo_env ! i) @
                       concat (map (\<lambda>x. CHR '','' # float_str demo_env x) (boston_data demo_env ! i)) @
                       [CHR 0x0A]) (labels (X_train v))))"
    and fv: "files s (path_join data_dir ''validation.csv'') = objects s (val_location v)"
    and ft: "files s (path_join data_dir ''train.csv'') = objects s (train_location v)"
    unfolding Let_def by (auto simp add: ev k)
  have ne: "val_location v \<noteq> train_location v" by (simp add: loc)
  have ov: "objects s (val_location v) =
       Some ''20.0,2.0,2.0,2.0,2.0,2.0,2.0,2.0,2.0,2.0,2.0,2.0,2.0,2.0\<newline>''"
    using ne by (simp add: ob lv lt ev rw wd)
  have ot: "objects s (train_location v) =
       Some ''40.0,4.0,4.0,4.0,4.0,4.0,4.0,4.0,4.0,4.0,4.0,4.0,4.0,4.0\<newline>''"
    using ne by (simp add: ob lv lt ev rw wd)
  show ?thesis
    using dataset_ok_demo demo_13 pn r u loc lv lt ov ot fv ft
    by (auto simp add: list_all_iff ev pj)
qed

subsection \<open>Container and input channels\<close>

text \<open>
  C6. The container is what \<^verbatim>\<open>get_image_uri\<close> returns for the session's region, the
  algorithm \<^verbatim>\<open>xgboost\<close> and the version \<^verbatim>\<open>0.90-1\<close>; the one estimator constructed, the
  one fitted and the one bound at the end carry that image. \<^verbatim>\<open>fit\<close> is called once, with
  the two channels \<^verbatim>\<open>train\<close> and \<^verbatim>\<open>validation\<close>, both of content type \<^verbatim>\<open>csv\<close>, at the
  locations the two uploads returned, where the objects are the two local files.
\<close>

theorem C6_container_and_channels:
  "\<exists>v s est. run_all e w = Inr (v, s) \<and>
     container v = image_uri e (boto_region_name e) ''xgboost'' ''0.90-1'' \<and>
     filter (\<lambda>c. call_name c = ''get_image_uri'') (calls s) =
       [Get_image_uri (boto_region_name e) ''xgboost'' ''0.90-1''] \<and>
     filter (\<lambda>c. call_name c = ''Estimator'') (calls s) =
       [Estimator (est\<lparr>hyperparameters := []\<rparr>)] \<and>
     filter (\<lambda>c. call_name c = ''fit'') (calls s) =
       [Fit est [(''train'', \<lparr>s3_data = train_location v, content_type = ''csv''\<rparr>),
                 (''validation'', \<lparr>s3_data = val_location v, content_type = ''csv''\<rparr>)]] \<and>
     image est = container v \<and>
     xgb v = est\<lparr>latest_training_job := latest_training_job (xgb v)\<rparr> \<and>
     filter (\<lambda>c. call_name c = ''upload_data'') (calls s) =
       [Upload_data (path_join data_dir ''validation.csv'') prefix,
        Upload_data (path_join data_dir ''train.csv'') prefix] \<and>
     objects s (val_location v) = files s (path_join data_dir ''validation.csv'') \<and>
     objects s (train_location v) = files s (path_join data_dir ''train.csv'') \<and>
     objects s (val_location v) \<noteq> None \<and> objects s (train_location v) \<noteq> None"
  unfolding run_all_eq
  apply (rule exI, rule exI)
  apply (rule exI[of _ "\<lparr>image = image_uri e (boto_region_name e) ''xgboost'' ''0.90-1'',
      est_role = execution_role e,
      train_instance_count = 1, train_instance_type = ''ml.m4.xlarge'',
      output_path = ''s3://'' @ bucket e @ ''/'' @ prefix @ ''/output'',
      hyperparameters = [(''max_depth'', ''5''), (''eta'', ''0.2''), (''gamma'', ''4''),
        (''min_child_weight'', ''6''), (''subsample'', ''0.8''),
        (''objective'', ''reg:squarederror''), (''early_stopping_rounds'', ''10''),
        (''num_round'', ''200'')],
      latest_training_job = None\<rparr>"])
  apply (rule conjI, rule refl)
  apply (simp add: calls_def partitions.defs val_path_def[symmetric] train_path_def[symmetric])
  done

theorem C6_container_and_channels_witness:
  "\<exists>v s est. run_all demo_env empty_world = Inr (v, s) \<and>
     container v =
       ''683313688378.dkr.ecr.us-east-1.amazonaws.com/sagemaker-xgboost:0.90-1-cpu-py3'' \<and>
     filter (\<lambda>c. call_name c = ''fit'') (calls s) =
       [Fit est [(''train'', \<lparr>s3_data = train_location v, content_type = ''csv''\<rparr>),
                 (''validation'', \<lparr>s3_data = val_location v, content_type = ''csv''\<rparr>)]] \<and>
     image est = container v"
  using C6_container_and_channels[of demo_env empty_world]
  by (auto simp add: demo_env_def)

subsection \<open>The request to the endpoint\<close>








subsection \<open>The lifetime of the endpoint\<close>

text \<open>
  C8. The trace of every run has exactly this shape: calls that are neither a deploy nor
  a delete, with the endpoints in service as they were at the start; then the deploy of
  the fitted estimator on one instance of type \<^verbatim>\<open>ml.m4.xlarge\<close>, after which the new
  endpoint is in service; then calls that are neither a deploy nor a delete, the endpoint
  being in service after each; and last the \<^verbatim>\<open>delete_endpoint\<close> on the predictor bound at
  the end, after which the endpoint is out of service. That predictor is the one deploy
  returns, with content type and serializer set.
\<close>

theorem C8_endpoint_lifetime:
  "\<exists>v s pre mid. run_all e w = Inr (v, s) \<and>
     trace s =
       pre @ (Deploy (xgb v) 1 ''ml.m4.xlarge'',
              insert (endpoint (xgb_predictor v)) (in_service w)) # mid @
       [(Delete_endpoint (xgb_predictor v), in_service w - {endpoint (xgb_predictor v)})] \<and>
     (\<forall>(c, E) \<in> set pre.
        E = in_service w \<and> call_name c \<noteq> ''deploy'' \<and> call_name c \<noteq> ''delete_endpoint'') \<and>
     (\<forall>(c, E) \<in> set mid.
        E = insert (endpoint (xgb_predictor v)) (in_service w) \<and>
        call_name c \<noteq> ''deploy'' \<and> call_name c \<noteq> ''delete_endpoint'') \<and>
     in_service s = in_service w - {endpoint (xgb_predictor v)} \<and>
     (\<forall>s1. \<exists>p s2. deploy e (xgb v) 1 ''ml.m4.xlarge'' s1 = Inr (p, s2) \<and>
        xgb_predictor v =
          p\<lparr>request_content_type := Some ''text/csv'',
            request_serializer := Some Csv_serializer\<rparr> \<and>
        in_service s2 = insert (endpoint p) (in_service s1))"
proof -
  define v where "v = fst (projr (run_all e w))"
  define s where "s = snd (projr (run_all e w))"
  have r: "run_all e w = Inr (v, s)" by (simp add: v_def s_def run_all_eq)
  define pre where "pre = takeWhile (\<lambda>(c, E). call_name c \<noteq> ''deploy'') (trace s)"
  define mid where
    "mid = butlast (tl (dropWhile (\<lambda>(c, E). call_name c \<noteq> ''deploy'') (trace s)))"
  have t: "trace s =
       pre @ (Deploy (xgb v) 1 ''ml.m4.xlarge'',
              insert (endpoint (xgb_predictor v)) (in_service w)) # mid @
       [(Delete_endpoint (xgb_predictor v), in_service w - {endpoint (xgb_predictor v)})]"
    unfolding pre_def mid_def s_def v_def run_all_eq
    by (cases "data_dir \<in> paths w") (simp_all add: in_service_def partitions.defs)
  have p: "\<forall>(c, E) \<in> set pre.
        E = in_service w \<and> call_name c \<noteq> ''deploy'' \<and> call_name c \<noteq> ''delete_endpoint''"
    unfolding pre_def s_def v_def run_all_eq
    by (cases "data_dir \<in> paths w") (simp_all add: in_service_def partitions.defs)
  have m: "\<forall>(c, E) \<in> set mid.
        E = insert (endpoint (xgb_predictor v)) (in_service w) \<and>
        call_name c \<noteq> ''deploy'' \<and> call_name c \<noteq> ''delete_endpoint''"
    unfolding mid_def s_def v_def run_all_eq
    by (cases "data_dir \<in> paths w") (simp_all add: in_service_def partitions.defs)
  have i: "in_service s = in_service w - {endpoint (xgb_predictor v)}"
    unfolding s_def v_def run_all_eq
    by (simp add: in_service_def names_filter partitions.defs del: set_map)
  have d: "\<forall>s1. \<exists>p s2. deploy e (xgb v) 1 ''ml.m4.xlarge'' s1 = Inr (p, s2) \<and>
        xgb_predictor v =
          p\<lparr>request_content_type := Some ''text/csv'',
            request_serializer := Some Csv_serializer\<rparr> \<and>
        in_service s2 = insert (endpoint p) (in_service s1)"
    unfolding s_def v_def run_all_eq
    by (simp add: deploy_def log_eq in_service_def partitions.defs)
  show ?thesis
    apply (rule exI[of _ v], rule exI[of _ s], rule exI[of _ pre], rule exI[of _ mid])
    using r t p m i d by (intro conjI)
qed

theorem C8_endpoint_lifetime_witness:
  "\<exists>v s pre mid. run_all demo_env empty_world = Inr (v, s) \<and>
     trace s =
       pre @ (Deploy (xgb v) 1 ''ml.m4.xlarge'',
              insert (endpoint (xgb_predictor v)) {}) # mid @
       [(Delete_endpoint (xgb_predictor v), {} - {endpoint (xgb_predictor v)})] \<and>
     (\<forall>(c, E) \<in> set pre.
        E = {} \<and> call_name c \<noteq> ''deploy'' \<and> call_name c \<noteq> ''delete_endpoint'') \<and>
     (\<forall>(c, E) \<in> set mid.
        E = insert (endpoint (xgb_predictor v)) {} \<and>
        call_name c \<noteq> ''deploy'' \<and> call_name c \<noteq> ''delete_endpoint'') \<and>
     in_service s = {} - {endpoint (xgb_predictor v)}"
proof -
  have e: "in_service empty_world = {}" by (simp add: in_service_def empty_world_def)
  from C8_endpoint_lifetime[of demo_env empty_world]
  show ?thesis unfolding e by blast
qed

subsection \<open>The test rows stay out of the training inputs\<close>

lemma split_frames_indep:
  assumes ok: "dataset_ok e"
    and e': "e' = e\<lparr>boston_data := d', boston_target := t'\<rparr>"
    and len: "length d' = length (boston_data e)" "length t' = length (boston_target e)"
    and same: "\<forall>i < length (boston_data e).
        i \<notin> set (take (n_test_of 0.33 (length (boston_data e))) (perm1 e)) \<longrightarrow>
        d' ! i = boston_data e ! i \<and> t' ! i = boston_target e ! i"
  shows "X_train (split_frames e') = X_train (split_frames e)"
    and "X_val (split_frames e') = X_val (split_frames e)"
    and "Y_train (split_frames e') = Y_train (split_frames e)"
    and "Y_val (split_frames e') = Y_val (split_frames e)"
proof -
  let ?N = "length (boston_data e)"
  have ok': "dataset_ok e'" using ok len by (simp add: dataset_ok_def e')
  obtain te va tr where
    te: "te = take (n_test_of 0.33 ?N) (perm1 e)"
    and va: "va = map ((!) (drop (n_test_of 0.33 ?N) (perm1 e)))
            (take (n_test_of 0.33 (?N - n_test_of 0.33 ?N)) (perm2 e))"
    and tr: "tr = map ((!) (drop (n_test_of 0.33 ?N) (perm1 e)))
            (drop (n_test_of 0.33 (?N - n_test_of 0.33 ?N)) (perm2 e))"
    and d: "distinct (te @ va @ tr)" and u: "set (te @ va @ tr) = {0..<?N}"
    and sp: "split_as e (split_frames e) te va tr"
    using split_frames_obtain[OF ok] by metis
  obtain te' va' tr' where
    va': "va' = map ((!) (drop (n_test_of 0.33 (length (boston_data e'))) (perm1 e')))
            (take (n_test_of 0.33 (length (boston_data e') - n_test_of 0.33 (length (boston_data e')))) (perm2 e'))"
    and tr': "tr' = map ((!) (drop (n_test_of 0.33 (length (boston_data e'))) (perm1 e')))
            (drop (n_test_of 0.33 (length (boston_data e') - n_test_of 0.33 (length (boston_data e')))) (perm2 e'))"
    and sp': "split_as e' (split_frames e') te' va' tr'"
    using split_frames_obtain[OF ok'] by metis
  have eq: "va' = va" "tr' = tr" by (simp_all add: va va' tr tr' e' len)
  have keep: "boston_data e' ! i = boston_data e ! i \<and> boston_target e' ! i = boston_target e ! i"
    if "i \<in> set va \<union> set tr" for i
  proof -
    from that u have "i < ?N" by auto
    moreover from that d have "i \<notin> set te" by auto
    ultimately show ?thesis using same by (simp add: e' te)
  qed
  have names: "boston_feature_names e' = boston_feature_names e" by (simp add: e')
  show "X_train (split_frames e') = X_train (split_frames e)"
    and "X_val (split_frames e') = X_val (split_frames e)"
    and "Y_train (split_frames e') = Y_train (split_frames e)"
    and "Y_val (split_frames e') = Y_val (split_frames e)"
    using sp sp' keep by (simp_all add: split_as_def eq names)
qed

lemma demo_other_eq:
  "demo_env_other_test =
     demo_env\<lparr>boston_data := [replicate 13 7, replicate 13 2, replicate 13 8, replicate 13 4],
              boston_target := [70, 20, 80, 40]\<rparr>"
  by (simp add: demo_env_other_test_def)

lemma demo_same_but_test:
  "\<forall>i < length (boston_data demo_env).
      i \<notin> set (take (n_test_of 0.33 (length (boston_data demo_env))) (perm1 demo_env)) \<longrightarrow>
      [replicate 13 7, replicate 13 2, replicate 13 8, replicate 13 (4::real)] ! i =
        boston_data demo_env ! i \<and>
      [70, 20, 80, 40::real] ! i = boston_target demo_env ! i"
  by (simp add: demo_env_def n_test_of_def less_Suc_eq all_conj_distrib numeral_eq_Suc)

text \<open>
  C2. The two files written, and the two objects uploaded, are the CSV text of the
  validation and of the train partition, whose index labels are disjoint from those of
  the test partition. Two runs from the same world on datasets that differ only in
  their test rows write the same files, upload the same objects, fit the same estimator
  on the same channel data, and make the same calls apart from the predict call, the
  parsing of its answer and the plot.
\<close>

theorem C2_test_rows_not_uploaded:
  assumes ok: "dataset_ok e"
    and e': "e' = e\<lparr>boston_data := d', boston_target := t'\<rparr>"
    and len: "length d' = length (boston_data e)" "length t' = length (boston_target e)"
    and same: "\<forall>i < length (boston_data e).
        i \<notin> set (take (n_test_of 0.33 (length (boston_data e))) (perm1 e)) \<longrightarrow>
        d' ! i = boston_data e ! i \<and> t' ! i = boston_target e ! i"
  shows "\<exists>v s v' s'. run_all e w = Inr (v, s) \<and> run_all e' w = Inr (v', s') \<and>
     labels (X_test v) = take (n_test_of 0.33 (length (boston_data e))) (perm1 e) \<and>
     set (labels (X_train v)) \<inter> set (labels (X_test v)) = {} \<and>
     set (labels (X_val v)) \<inter> set (labels (X_test v)) = {} \<and>
     labels (concat_axis1 (Y_val v) (X_val v)) = labels (X_val v) \<and>
     labels (concat_axis1 (Y_train v) (X_train v)) = labels (X_train v) \<and>
     files s = (files w)
       (val_path \<mapsto> to_csv_text (float_str e) (concat_axis1 (Y_val v) (X_val v)) False False,
        train_path \<mapsto> to_csv_text (float_str e) (concat_axis1 (Y_train v) (X_train v)) False False) \<and>
     objects s = (objects w)
       (val_location v \<mapsto> to_csv_text (float_str e) (concat_axis1 (Y_val v) (X_val v)) False False,
        train_location v \<mapsto>
          to_csv_text (float_str e) (concat_axis1 (Y_train v) (X_train v)) False False) \<and>
     files s' = files s \<and> objects s' = objects s \<and> xgb v' = xgb v \<and>
     filter (\<lambda>c. call_name c \<notin> set [''predict'', ''np.fromstring'', ''scatter'']) (calls s') =
     filter (\<lambda>c. call_name c \<notin> set [''predict'', ''np.fromstring'', ''scatter'']) (calls s)"
proof -
  let ?N = "length (boston_data e)"
  note ind = split_frames_indep[OF ok e' len same]
  obtain te va tr where
    te: "te = take (n_test_of 0.33 ?N) (perm1 e)"
    and d: "distinct (te @ va @ tr)"
    and sp: "split_as e (split_frames e) te va tr"
    using split_frames_obtain[OF ok] by metis
  note lb = split_as_labels[OF sp]
  have te': "take (n_test_of (33 / 100) ?N) (perm1 e) = te" by (simp add: te)
  have dis: "set tr \<inter> set te = {}" "set va \<inter> set te = {}" using d by auto
  have cl: "labels (concat_axis1 (Y_val (split_frames e)) (X_val (split_frames e))) = va"
    "labels (concat_axis1 (Y_train (split_frames e)) (X_train (split_frames e))) = tr"
    using sp by (simp_all add: split_as_def concat_axis1_same labels_def comp_def)
  have csv: "val_csv e' = val_csv e" "train_csv e' = train_csv e"
    by (simp_all add: val_csv_def train_csv_def ind) (simp_all add: e')
  have env: "bucket e' = bucket e" "boto_region_name e' = boto_region_name e"
    "execution_role e' = execution_role e" "image_uri e' = image_uri e"
    "job_name e' = job_name e" "s3_uri e' = s3_uri e"
    by (simp_all add: e' s3_uri_def fun_eq_iff)
  show ?thesis
    unfolding run_all_eq
    apply (rule exI, rule exI, rule exI, rule exI, rule conjI, rule refl, rule conjI, rule refl)
    apply (simp add: calls_def partitions.defs lb cl dis te' csv env
        val_csv_def[symmetric] train_csv_def[symmetric])
    done
qed

theorem C2_test_rows_not_uploaded_witness:
  "dataset_ok demo_env \<and>
   boston_data demo_env ! 2 \<noteq> boston_data demo_env_other_test ! 2 \<and>
   (\<exists>v s v' s'. run_all demo_env empty_world = Inr (v, s) \<and>
      run_all demo_env_other_test empty_world = Inr (v', s') \<and>
      files s' = files s \<and> objects s' = objects s \<and> xgb v' = xgb v)"
proof -
  have l: "length [replicate 13 7, replicate 13 2, replicate 13 8, replicate 13 (4::real)] =
      length (boston_data demo_env)"
    "length [70, 20, 80, 40::real] = length (boston_target demo_env)"
    by (simp_all add: demo_env_def)
  have n: "boston_data demo_env ! 2 \<noteq> boston_data demo_env_other_test ! 2"
    by (simp add: demo_env_other_test_def demo_env_def)
  from C2_test_rows_not_uploaded[OF dataset_ok_demo demo_other_eq l demo_same_but_test,
      of empty_world]
  show ?thesis using dataset_ok_demo n by blast
qed

end
